theory Spec2Isabelle
  imports Complex_Main "HOL-Library.Word"
begin

unbundle bit_operations_syntax

section \<open>Vectors, matrices and sizes\<close>

text \<open>
  The scene computes with single-precision floats (\<open>glm::vec3\<close>, \<open>glm::vec4\<close>, \<open>float\<close>).
  A finite float is taken as a real number: the model is exact where the float rounds. The
  range is that of the float: a result too large for it is an infinity, and \<open>sinf\<close> and
  \<open>cosf\<close> of an infinity are NaN. The stored vectors hold finite values only; the float
  division of the source, \<open>1e-3f / numLights\<close>, yields \<open>+inf\<close> for a zero divisor, so the
  fourth colour component is a float value that need not be finite.
\<close>

datatype vec3 = Vec3 (vec3_x: real) (vec3_y: real) (vec3_z: real)

datatype vec4 = Vec4 (vec4_x: real) (vec4_y: real) (vec4_z: real) (vec4_w: real)

datatype fval = Finite real | PlusInfinity | MinusInfinity | NotANumber

datatype color4 = Color4 (col_r: real) (col_g: real) (col_b: real) (col_a: fval)

text \<open>
  The largest finite float is \<open>2^128 - 2^104\<close>. With rounding to nearest, ties to even,
  an exact result of magnitude \<open>2^128 - 2^103\<close> or more becomes an infinity.
\<close>

definition float_overflow :: real where
  "float_overflow = 2 ^ 128 - 2 ^ 103"

definition float_result :: "real \<Rightarrow> fval" where
  "float_result x =
     (if float_overflow \<le> x then PlusInfinity
      else if x \<le> - float_overflow then MinusInfinity
      else Finite x)"

text \<open>Float multiplication and addition, with the special values of IEEE 754.\<close>

fun fval_mul :: "fval \<Rightarrow> fval \<Rightarrow> fval" where
  "fval_mul (Finite a) (Finite b) = float_result (a * b)"
| "fval_mul NotANumber y = NotANumber"
| "fval_mul x NotANumber = NotANumber"
| "fval_mul (Finite a) PlusInfinity =
     (if a = 0 then NotANumber else if 0 < a then PlusInfinity else MinusInfinity)"
| "fval_mul (Finite a) MinusInfinity =
     (if a = 0 then NotANumber else if 0 < a then MinusInfinity else PlusInfinity)"
| "fval_mul PlusInfinity (Finite b) =
     (if b = 0 then NotANumber else if 0 < b then PlusInfinity else MinusInfinity)"
| "fval_mul MinusInfinity (Finite b) =
     (if b = 0 then NotANumber else if 0 < b then MinusInfinity else PlusInfinity)"
| "fval_mul PlusInfinity PlusInfinity = PlusInfinity"
| "fval_mul PlusInfinity MinusInfinity = MinusInfinity"
| "fval_mul MinusInfinity PlusInfinity = MinusInfinity"
| "fval_mul MinusInfinity MinusInfinity = PlusInfinity"

fun fval_add :: "fval \<Rightarrow> fval \<Rightarrow> fval" where
  "fval_add (Finite a) (Finite b) = float_result (a + b)"
| "fval_add NotANumber y = NotANumber"
| "fval_add x NotANumber = NotANumber"
| "fval_add PlusInfinity MinusInfinity = NotANumber"
| "fval_add MinusInfinity PlusInfinity = NotANumber"
| "fval_add PlusInfinity y = PlusInfinity"
| "fval_add MinusInfinity y = MinusInfinity"
| "fval_add (Finite a) y = y"

text \<open>\<open>sinf\<close> and \<open>cosf\<close>: a value of the sine or cosine for a finite argument, NaN otherwise.\<close>

fun sinf :: "fval \<Rightarrow> fval" where
  "sinf (Finite x) = Finite (sin x)"
| "sinf x = NotANumber"

fun cosf :: "fval \<Rightarrow> fval" where
  "cosf (Finite x) = Finite (cos x)"
| "cosf x = NotANumber"

text \<open>
  A \<open>glm::vec3\<close> as an expression computes it, before it is stored: its components need
  not be finite.
\<close>

datatype fvec3 = FVec3 (fvec3_x: fval) (fvec3_y: fval) (fvec3_z: fval)

definition to_fvec3 :: "vec3 \<Rightarrow> fvec3" where
  "to_fvec3 v = FVec3 (Finite (vec3_x v)) (Finite (vec3_y v)) (Finite (vec3_z v))"

definition fvec3_add :: "fvec3 \<Rightarrow> fvec3 \<Rightarrow> fvec3" where
  "fvec3_add a b =
     FVec3 (fval_add (fvec3_x a) (fvec3_x b)) (fval_add (fvec3_y a) (fvec3_y b))
           (fval_add (fvec3_z a) (fvec3_z b))"

definition fvec3_mul :: "fvec3 \<Rightarrow> fvec3 \<Rightarrow> fvec3" where
  "fvec3_mul a b =
     FVec3 (fval_mul (fvec3_x a) (fvec3_x b)) (fval_mul (fvec3_y a) (fvec3_y b))
           (fval_mul (fvec3_z a) (fvec3_z b))"

text \<open>The vector when all its components are finite.\<close>

fun finite_vec3 :: "fvec3 \<Rightarrow> vec3 option" where
  "finite_vec3 (FVec3 (Finite x) (Finite y) (Finite z)) = Some (Vec3 x y z)"
| "finite_vec3 v = None"

text \<open>
  Matrices are kept as the expressions the source builds with glm; \<open>Opaque\<close> stands for a
  matrix handed in by the camera collaborator.
\<close>

datatype mat =
    Opaque nat
  | Translate vec3
  | Rotate real vec3
  | Scale vec3
  | Mul mat mat
  | Transpose mat
  | ToMat4x3 mat

definition sizeof_float :: nat where
  "sizeof_float = 4"

text \<open>\<open>sizeof(glm::mat3x4)\<close>: 3 columns of 4 floats.\<close>

definition sizeof_mat3x4 :: nat where
  "sizeof_mat3x4 = 3 * 4 * sizeof_float"

text \<open>\<open>sizeof(glm::mat4x4)\<close>: 4 columns of 4 floats.\<close>

definition sizeof_mat4x4 :: nat where
  "sizeof_mat4x4 = 4 * 4 * sizeof_float"

text \<open>\<open>struct InstanceData { glm::mat3x4 transformation; }\<close>\<close>

definition sizeof_InstanceData :: nat where
  "sizeof_InstanceData = sizeof_mat3x4"

definition MAX_INSTANCES :: nat where
  "MAX_INSTANCES = 1024"

definition radians :: "real \<Rightarrow> real" where
  "radians d = d * pi / 180"

definition PI_HALF :: real where
  "PI_HALF = pi / 2"

section \<open>Render passes\<close>

text \<open>\<open>enum class RenderPass : int\<close>; the source tests the flags with \<open>(int)renderPass & ...\<close>.\<close>

type_synonym RenderPass = "32 word"

definition DepthPass :: RenderPass where
  "DepthPass = 0x0001"

definition ShadowVolume :: RenderPass where
  "ShadowVolume = 0x0002"

definition DirectLight :: RenderPass where
  "DirectLight = 0x0004"

definition AmbientLight :: RenderPass where
  "AmbientLight = 0x0008"

definition LightPass :: RenderPass where
  "LightPass = 0x000c"

section \<open>The OpenGL commands the scene issues\<close>

datatype ShaderProgram =
    Default | Instancing | DefaultDepthPass | InstancingDepthPass
  | PointRendering | InstancedShadowVolume

datatype LoadedTexture =
    White | Grey | Blue | CheckerBoard | Diffuse | Normal | Specular | Occlusion

datatype Sampler = Anisotropic

datatype gl_cap =
    GL_BLEND | GL_CULL_FACE | GL_DEPTH_TEST | GL_DEPTH_CLAMP | GL_STENCIL_TEST | GL_MULTISAMPLE

datatype gl_face = GL_FRONT | GL_BACK | GL_FRONT_AND_BACK

datatype gl_polygon_mode = GL_LINE | GL_FILL

datatype gl_func = GL_ALWAYS | GL_EQUAL | GL_LEQUAL

datatype gl_stencil_op = GL_KEEP | GL_INCR_WRAP | GL_DECR_WRAP

datatype gl_buffer_bit = GL_COLOR_BUFFER_BIT | GL_DEPTH_BUFFER_BIT | GL_STENCIL_BUFFER_BIT

datatype gl_blend_equation = GL_FUNC_ADD

datatype gl_blend_factor = GL_ONE

datatype gl_primitive = GL_TRIANGLES | GL_TRIANGLES_ADJACENCY | GL_POINTS

datatype gl_buffer_target = GL_UNIFORM_BUFFER

datatype gl_access = GL_WRITE_ONLY

datatype gl_usage = GL_DYNAMIC_DRAW

text \<open>
  A uniform is addressed by the location that \<open>glGetUniformLocation (program, name)\<close>
  returns, or by a literal location.
\<close>

datatype uniform_location = UniformLocation ShaderProgram string | LiteralLocation nat

datatype gl_cmd =
    glEnable gl_cap
  | glDisable gl_cap
  | glCullFace gl_face
  | glPolygonMode gl_face gl_polygon_mode
  | glDepthFunc gl_func
  | glDepthMask bool
  | glClearColor real real real real
  | glClear "gl_buffer_bit list"
  | glColorMask bool bool bool bool
  | glStencilFunc gl_func nat nat
  | glStencilOp gl_stencil_op gl_stencil_op gl_stencil_op
  | glStencilOpSeparate gl_face gl_stencil_op gl_stencil_op gl_stencil_op
  | glBlendEquation gl_blend_equation
  | glBlendFunc gl_blend_factor gl_blend_factor
  | glUseProgram ShaderProgram
  | glUniform4f uniform_location real real real fval
  | glUniform4fv_column uniform_location mat nat
  | glUniform3fv uniform_location vec3
  | glUniformMatrix4x3fv uniform_location mat
  | glActiveTexture nat
  | glBindTexture nat
  | glBindSampler nat Sampler
  | glGenVertexArrays nat
  | glGenBuffers nat
  | glBindBuffer gl_buffer_target nat
  | glBindBufferBase gl_buffer_target nat nat
  | glBufferData gl_buffer_target int gl_usage
  | glBufferSubData gl_buffer_target nat nat mat
  | glMapBuffer gl_buffer_target gl_access
  | memcpy_mapped nat "mat list"
  | glUnmapBuffer gl_buffer_target
  | glBindVertexArray nat
  | glDrawElements gl_primitive nat
  | glDrawElementsInstanced gl_primitive nat int
  | glDrawArrays gl_primitive nat nat
  | glPointSize real

section \<open>Scene data\<close>

record mesh =
  VAO :: nat
  IBOSize :: nat

record Light =
  position :: vec3
  color :: color4
  movement :: vec4

record camera =
  WorldToView :: mat
  ViewToWorld :: mat
  Projection :: mat

record RenderSettings =
  vsync :: bool
  wireframe :: bool
  tonemapping :: bool
  msaaLevel :: int

text \<open>
  The fields of \<open>class Scene\<close> of the shadow-volume scene. The mesh pointers are \<open>None\<close>
  while they are \<open>nullptr\<close>.
\<close>

record scene =
  loadedTextures :: "LoadedTexture \<Rightarrow> nat"
  numCubes :: int
  cubePositions :: "vec3 list"
  numLights :: int
  lights :: "Light list"
  vao :: nat
  quad :: "mesh option"
  cube :: "mesh option"
  cubeAdjacency :: "mesh option"
  instancingBuffer :: nat
  transformBlockUBO :: nat

text \<open>
  What can go wrong in the source without a check of its own: an index past the end of a
  \<open>std::vector\<close>, a null mesh pointer, a negative byte count handed to \<open>memcpy\<close>,
  and \<open>std::length_error\<close> from \<open>reserve\<close> of a negative count. All but the last are
  undefined behaviour of the source: the access is performed, nothing rejects it.
  \<open>PositionNotFinite i\<close> is of another kind: the position computed for light \<open>i\<close> has a
  component that is NaN or infinite. The source stores it and goes on; the stored vectors
  of the model are finite, so the model ends the run there.
\<close>

datatype fault =
    ReadOutOfRange nat
  | WriteOutOfRange nat
  | NullPointer
  | CopyOutOfRange
  | LengthError
  | PositionNotFinite nat

section \<open>Per-program uniform data\<close>

definition UpdateProgramData ::
  "ShaderProgram \<Rightarrow> RenderPass \<Rightarrow> camera \<Rightarrow> vec3 \<Rightarrow> color4 \<Rightarrow> gl_cmd list" where
  "UpdateProgramData program renderPass cam lightPosition lightColor =
     (if renderPass AND (ShadowVolume OR LightPass) \<noteq> 0
      then [glUniform4f (UniformLocation program ''lightPosWS'')
              (vec3_x lightPosition) (vec3_y lightPosition) (vec3_z lightPosition)
              (if renderPass AND DirectLight \<noteq> 0 then Finite 1 else Finite 0)]
      else []) @
     (if renderPass AND LightPass \<noteq> 0
      then [glUniform4fv_column (UniformLocation program ''viewPosWS'') (ViewToWorld cam) 3,
            glUniform4f (UniformLocation program ''lightColor'')
              (col_r lightColor) (col_g lightColor) (col_b lightColor)
              (if renderPass AND AmbientLight \<noteq> 0 then col_a lightColor else Finite 0)]
      else [])"

text \<open>The uniforms that only a light pass updates: view position and light colour.\<close>

fun is_light_pass_uniform :: "gl_cmd \<Rightarrow> bool" where
  "is_light_pass_uniform (glUniform4fv_column (UniformLocation p n) m c) = (n = ''viewPosWS'')"
| "is_light_pass_uniform (glUniform4f (UniformLocation p n) x y z w) = (n = ''lightColor'')"
| "is_light_pass_uniform c = False"

section \<open>Sequencing of fallible command lists\<close>

definition append_result ::
  "fault + gl_cmd list \<Rightarrow> fault + gl_cmd list \<Rightarrow> fault + gl_cmd list" where
  "append_result a b =
     (case a of Inl e \<Rightarrow> Inl e
      | Inr x \<Rightarrow> (case b of Inl e \<Rightarrow> Inl e | Inr y \<Rightarrow> Inr (x @ y)))"

section \<open>Light movement\<close>

definition scale :: vec3 where
  "scale = Vec3 13 2 13"

definition offset :: vec3 where
  "offset = Vec3 0 3 0"

definition lissajous :: "vec4 \<Rightarrow> real \<Rightarrow> fvec3" where
  "lissajous p t =
     FVec3 (sinf (fval_mul (Finite (vec4_x p)) (Finite t)))
           (cosf (fval_mul (Finite (vec4_y p)) (Finite t)))
           (fval_mul (sinf (fval_mul (Finite (vec4_z p)) (Finite t)))
                     (cosf (fval_mul (Finite (vec4_w p)) (Finite t))))"




section \<open>Instance data\<close>

text \<open>
  The matrix stored for cube \<open>i\<close> at position \<open>p\<close>: the transpose of
  \<open>glm::translate (p) * glm::rotate (glm::radians (i * angle), glm::vec3 (1, 1, 1))\<close>
  with \<open>angle = 20\<close>.
\<close>

definition instance_transformation :: "vec3 \<Rightarrow> nat \<Rightarrow> mat" where
  "instance_transformation p i =
     Transpose (Mul (Translate p) (Rotate (radians (real i * 20)) (Vec3 1 1 1)))"

text \<open>
  The loop of \<open>Scene::UpdateInstanceData\<close> over the cubes; \<open>buf\<close> is the static staging
  vector \<open>instanceData\<close>, created with \<open>MAX_INSTANCES\<close> entries.
\<close>

function fill_instanceData :: "scene \<Rightarrow> nat \<Rightarrow> mat list \<Rightarrow> fault + mat list" where
  "fill_instanceData sc i buf =
     (if int i < numCubes sc
      then (if length (cubePositions sc) \<le> i then Inl (ReadOutOfRange i)
            else if length buf \<le> i then Inl (WriteOutOfRange i)
            else fill_instanceData sc (Suc i)
                   (buf[i := instance_transformation (cubePositions sc ! i) i]))
      else Inr buf)"
  by pat_completeness auto
termination
  by (relation "measure (\<lambda>(sc, i, buf). nat (numCubes sc) - i)") auto

declare fill_instanceData.simps [simp del]

definition UpdateInstanceData :: "scene \<Rightarrow> mat list \<Rightarrow> fault + (gl_cmd list \<times> mat list)" where
  "UpdateInstanceData sc instanceData =
     (case fill_instanceData sc 0 instanceData of
        Inl e \<Rightarrow> Inl e
      | Inr buf \<Rightarrow>
          if numCubes sc < 0 then Inl CopyOutOfRange
          else Inr ([glBindBufferBase GL_UNIFORM_BUFFER 1 (instancingBuffer sc),
                     glMapBuffer GL_UNIFORM_BUFFER GL_WRITE_ONLY,
                     memcpy_mapped (nat (numCubes sc) * sizeof_InstanceData)
                       (take (nat (numCubes sc)) buf),
                     glUnmapBuffer GL_UNIFORM_BUFFER,
                     glBindBufferBase GL_UNIFORM_BUFFER 1 0], buf))"

section \<open>Transform block\<close>

definition UpdateTransformBlock :: "scene \<Rightarrow> camera \<Rightarrow> gl_cmd list" where
  "UpdateTransformBlock sc cam =
     [glBindBuffer GL_UNIFORM_BUFFER (transformBlockUBO sc),
      glBufferSubData GL_UNIFORM_BUFFER 0 sizeof_mat3x4 (Transpose (WorldToView cam)),
      glBufferSubData GL_UNIFORM_BUFFER sizeof_mat3x4 sizeof_mat4x4 (Projection cam),
      glBindBuffer GL_UNIFORM_BUFFER 0]"

section \<open>Drawing\<close>

definition BindTextures :: "nat \<Rightarrow> nat \<Rightarrow> nat \<Rightarrow> nat \<Rightarrow> gl_cmd list" where
  "BindTextures diffuse normal specular occlusion =
     [glActiveTexture 0, glBindTexture diffuse, glBindSampler 0 Anisotropic,
      glActiveTexture 1, glBindTexture normal, glBindSampler 1 Anisotropic,
      glActiveTexture 2, glBindTexture specular, glBindSampler 2 Anisotropic,
      glActiveTexture 3, glBindTexture occlusion, glBindSampler 3 Anisotropic]"

definition DrawBackground ::
  "scene \<Rightarrow> ShaderProgram \<Rightarrow> RenderPass \<Rightarrow> camera \<Rightarrow> vec3 \<Rightarrow> color4 \<Rightarrow> fault + gl_cmd list" where
  "DrawBackground sc program renderPass cam lightPosition lightColor =
     (case quad sc of
        None \<Rightarrow> Inl NullPointer
      | Some q \<Rightarrow> Inr (
          [glUseProgram program] @
          UpdateProgramData program renderPass cam lightPosition lightColor @
          (if renderPass AND LightPass \<noteq> 0
           then BindTextures (loadedTextures sc CheckerBoard) (loadedTextures sc Blue)
                  (loadedTextures sc Grey) (loadedTextures sc White)
           else []) @
          [glBindVertexArray (VAO q),
           glUniformMatrix4x3fv (LiteralLocation 0) (ToMat4x3 (Scale (Vec3 30 1 30))),
           glDrawElements GL_TRIANGLES (IBOSize q),
           glUniformMatrix4x3fv (LiteralLocation 0)
             (ToMat4x3 (Mul (Mul (Translate (Vec3 0 0 15)) (Rotate (- PI_HALF) (Vec3 1 0 0)))
                            (Scale (Vec3 30 1 30)))),
           glDrawElements GL_TRIANGLES (IBOSize q),
           glUniformMatrix4x3fv (LiteralLocation 0)
             (ToMat4x3 (Mul (Mul (Translate (Vec3 15 0 0)) (Rotate PI_HALF (Vec3 0 0 1)))
                            (Scale (Vec3 30 1 30)))),
           glDrawElements GL_TRIANGLES (IBOSize q)]))"

definition DrawObjects ::
  "scene \<Rightarrow> ShaderProgram \<Rightarrow> RenderPass \<Rightarrow> camera \<Rightarrow> vec3 \<Rightarrow> color4 \<Rightarrow> fault + gl_cmd list" where
  "DrawObjects sc program renderPass cam lightPosition lightColor =
     (case (if renderPass AND ShadowVolume \<noteq> 0
            then map_option (\<lambda>m. [glBindVertexArray (VAO m),
                     glDrawElementsInstanced GL_TRIANGLES_ADJACENCY (IBOSize m) (numCubes sc)])
                   (cubeAdjacency sc)
            else map_option (\<lambda>m. [glBindVertexArray (VAO m),
                     glDrawElementsInstanced GL_TRIANGLES (IBOSize m) (numCubes sc)])
                   (cube sc)) of
        None \<Rightarrow> Inl NullPointer
      | Some drawCubes \<Rightarrow> Inr (
          [glUseProgram program] @
          UpdateProgramData program renderPass cam lightPosition lightColor @
          [glBindBufferBase GL_UNIFORM_BUFFER 1 (instancingBuffer sc)] @
          (if renderPass AND LightPass \<noteq> 0
           then BindTextures (loadedTextures sc Diffuse) (loadedTextures sc Normal)
                  (loadedTextures sc Specular) (loadedTextures sc Occlusion)
           else []) @
          drawCubes @
          [glBindBufferBase GL_UNIFORM_BUFFER 1 0] @
          (if renderPass AND AmbientLight \<noteq> 0
           then [glUseProgram PointRendering,
                 glUniform3fv (UniformLocation PointRendering ''position'') lightPosition,
                 glUniform3fv (UniformLocation PointRendering ''color'')
                   (Vec3 (col_r lightColor * 0.05) (col_g lightColor * 0.05)
                         (col_b lightColor * 0.05)),
                 glDisable GL_BLEND,
                 glPointSize 10,
                 glBindVertexArray (vao sc),
                 glDrawArrays GL_POINTS 0 1]
           else [])))"

text \<open>The three lambdas of \<open>Scene::Draw\<close>.\<close>

definition depthPass :: "scene \<Rightarrow> camera \<Rightarrow> fault + gl_cmd list" where
  "depthPass sc cam =
     append_result
       (DrawBackground sc DefaultDepthPass DepthPass cam (Vec3 0 0 0) (Color4 0 0 0 (Finite 0)))
       (DrawObjects sc InstancingDepthPass DepthPass cam (Vec3 0 0 0) (Color4 0 0 0 (Finite 0)))"

definition lightPass ::
  "scene \<Rightarrow> camera \<Rightarrow> RenderPass \<Rightarrow> vec3 \<Rightarrow> color4 \<Rightarrow> fault + gl_cmd list" where
  "lightPass sc cam renderPass lightPosition lightColor =
     append_result
       (Inr [glEnable GL_BLEND, glBlendEquation GL_FUNC_ADD, glBlendFunc GL_ONE GL_ONE,
             glStencilFunc GL_EQUAL 0x00 0xff,
             glStencilOp GL_KEEP GL_KEEP GL_KEEP])
       (append_result (DrawBackground sc Default renderPass cam lightPosition lightColor)
          (append_result (DrawObjects sc Instancing renderPass cam lightPosition lightColor)
             (Inr [glDisable GL_BLEND])))"

definition shadowPass ::
  "scene \<Rightarrow> camera \<Rightarrow> bool \<Rightarrow> vec3 \<Rightarrow> color4 \<Rightarrow> fault + gl_cmd list" where
  "shadowPass sc cam carmackReverse lightPosition lightColor =
     append_result
       (Inr ([glDisable GL_CULL_FACE, glStencilFunc GL_ALWAYS 0x00 0xff] @
             (if carmackReverse
              then [glStencilOpSeparate GL_BACK GL_KEEP GL_INCR_WRAP GL_KEEP,
                    glStencilOpSeparate GL_FRONT GL_KEEP GL_DECR_WRAP GL_KEEP]
              else [glStencilOpSeparate GL_BACK GL_KEEP GL_KEEP GL_DECR_WRAP,
                    glStencilOpSeparate GL_FRONT GL_KEEP GL_KEEP GL_INCR_WRAP])))
       (append_result
          (DrawObjects sc InstancedShadowVolume ShadowVolume cam lightPosition lightColor)
          (Inr [glEnable GL_CULL_FACE]))"

text \<open>The body of the loop of \<open>Scene::Draw\<close> over the lights, for the light \<open>l\<close>.\<close>

definition light_iteration :: "scene \<Rightarrow> camera \<Rightarrow> bool \<Rightarrow> Light \<Rightarrow> fault + gl_cmd list" where
  "light_iteration sc cam carmackReverse l =
     append_result (Inr [glClear [GL_STENCIL_BUFFER_BIT], glEnable GL_STENCIL_TEST,
                         glColorMask False False False False])
       (append_result (shadowPass sc cam carmackReverse (position l) (color l))
          (append_result (Inr [glColorMask True True True True])
             (append_result (lightPass sc cam DirectLight (position l) (color l))
                (append_result (Inr [glDisable GL_STENCIL_TEST])
                   (lightPass sc cam AmbientLight (position l) (color l))))))"

function light_loop :: "scene \<Rightarrow> camera \<Rightarrow> bool \<Rightarrow> nat \<Rightarrow> fault + gl_cmd list" where
  "light_loop sc cam carmackReverse i =
     (if int i < numLights sc
      then (if i < length (lights sc)
            then append_result (light_iteration sc cam carmackReverse (lights sc ! i))
                   (light_loop sc cam carmackReverse (Suc i))
            else Inl (ReadOutOfRange i))
      else Inr [])"
  by pat_completeness auto
termination
  by (relation "measure (\<lambda>(sc, cam, cr, i). nat (numLights sc) - i)") auto

declare light_loop.simps [simp del]

text \<open>
  The global state that \<open>Scene::Draw\<close> sets before it renders, and the clear of the
  colour and depth buffers.
\<close>

definition frame_setup :: "RenderSettings \<Rightarrow> gl_cmd list" where
  "frame_setup renderMode =
     [if msaaLevel renderMode > 1 then glEnable GL_MULTISAMPLE else glDisable GL_MULTISAMPLE,
      glEnable GL_CULL_FACE,
      glCullFace GL_BACK,
      glPolygonMode GL_FRONT_AND_BACK (if wireframe renderMode then GL_LINE else GL_FILL),
      glEnable GL_DEPTH_TEST,
      glEnable GL_DEPTH_CLAMP,
      glDepthFunc GL_LEQUAL,
      glDepthMask True,
      glClearColor 0 0 0 1,
      glClear [GL_COLOR_BUFFER_BIT, GL_DEPTH_BUFFER_BIT]]"

text \<open>
  \<open>Scene::Draw\<close>: the commands of one frame, and the staging vector it leaves behind.
\<close>

definition Draw ::
  "scene \<Rightarrow> camera \<Rightarrow> RenderSettings \<Rightarrow> bool \<Rightarrow> mat list \<Rightarrow> fault + (gl_cmd list \<times> mat list)" where
  "Draw sc cam renderMode carmackReverse instanceData =
     (case UpdateInstanceData sc instanceData of
        Inl e \<Rightarrow> Inl e
      | Inr (upload, buf) \<Rightarrow>
          (case append_result
                  (Inr (UpdateTransformBlock sc cam @ upload @ frame_setup renderMode @
                        [glColorMask False False False False]))
                  (append_result (depthPass sc cam)
                     (append_result (Inr [glDepthMask False])
                        (append_result (light_loop sc cam carmackReverse 0)
                           (Inr [glColorMask True True True True])))) of
             Inl e \<Rightarrow> Inl e
           | Inr cmds \<Rightarrow> Inr (cmds, buf)))"

section \<open>Scene initialisation\<close>

text \<open>
  What \<open>Scene::Init\<close> obtains from its collaborators: the meshes of \<open>Geometry\<close>, the
  names generated by OpenGL, the uniform block sizes reported by OpenGL and the textures
  of \<open>Textures\<close>.
\<close>

record init_env =
  created_quad :: mesh
  created_cube :: mesh
  created_cubeAdjacency :: mesh
  generated_vao :: nat
  generated_instancingBuffer :: nat
  generated_transformBlockUBO :: nat
  instancing_uboSize :: int
  transform_uboSize :: int
  created_textures :: "LoadedTexture \<Rightarrow> nat"

text \<open>
  \<open>getRandom\<close> is declared in \<open>MathSupport.h\<close>, outside the scene; it is a parameter of
  the model, a function from the generator state and the two bounds to the value drawn and
  the next generator state.
\<close>

type_synonym getRandom_fn = "nat \<Rightarrow> real \<Rightarrow> real \<Rightarrow> real \<times> nat"

function gen_cubes :: "getRandom_fn \<Rightarrow> int \<Rightarrow> nat \<Rightarrow> nat \<Rightarrow> vec3 list \<Rightarrow> vec3 list \<times> nat" where
  "gen_cubes getRandom n i g ps =
     (if int i < n
      then (case getRandom g (- 5) 5 of (x, g1) \<Rightarrow>
            case getRandom g1 1 5 of (y, g2) \<Rightarrow>
            case getRandom g2 (- 5) 5 of (z, g3) \<Rightarrow>
              gen_cubes getRandom n (Suc i) g3 (ps @ [Vec3 x y z]))
      else (ps, g))"
  by pat_completeness auto
termination
  by (relation "measure (\<lambda>(getRandom, n, i, g, ps). nat n - i)") auto

declare gen_cubes.simps [simp del]

function gen_lights ::
  "getRandom_fn \<Rightarrow> int \<Rightarrow> fval \<Rightarrow> nat \<Rightarrow> nat \<Rightarrow> Light list \<Rightarrow> fault + (Light list \<times> nat)" where
  "gen_lights getRandom n ambientIntensity i g ls =
     (if int i < n
      then (case getRandom g (- 2) 2 of (x, g1) \<Rightarrow>
            case getRandom g1 (- 2) 2 of (y, g2) \<Rightarrow>
            case getRandom g2 (- 2) 2 of (z, g3) \<Rightarrow>
            case getRandom g3 (- 2) 2 of (w, g4) \<Rightarrow>
            case getRandom g4 0 5 of (r, g5) \<Rightarrow>
            case getRandom g5 0 5 of (gr, g6) \<Rightarrow>
            case getRandom g6 0 5 of (b, g7) \<Rightarrow>
            case finite_vec3
                   (fvec3_add (to_fvec3 offset)
                      (fvec3_mul (lissajous (Vec4 x y z w) 0) (to_fvec3 scale))) of
              None \<Rightarrow> Inl (PositionNotFinite i)
            | Some p \<Rightarrow>
                gen_lights getRandom n ambientIntensity (Suc i) g7
                  (ls @ [\<lparr>position = p, color = Color4 r gr b ambientIntensity,
                          movement = Vec4 x y z w\<rparr>]))
      else Inr (ls, g))"
  by pat_completeness auto
termination
  by (relation "measure (\<lambda>(getRandom, n, a, i, g, ls). nat n - i)") auto

declare gen_lights.simps [simp del]

text \<open>\<open>1e-3f / numLights\<close>, a float division.\<close>

definition ambientIntensity_of :: "int \<Rightarrow> fval" where
  "ambientIntensity_of n =
     (if n = 0 then PlusInfinity else Finite (1 / 1000 / real_of_int n))"

definition Init_buffers :: "init_env \<Rightarrow> gl_cmd list" where
  "Init_buffers env =
     [glGenVertexArrays (generated_vao env),
      glGenBuffers (generated_instancingBuffer env),
      glBindBuffer GL_UNIFORM_BUFFER (generated_instancingBuffer env),
      glBufferData GL_UNIFORM_BUFFER (instancing_uboSize env) GL_DYNAMIC_DRAW,
      glBindBuffer GL_UNIFORM_BUFFER 0,
      glGenBuffers (generated_transformBlockUBO env),
      glBindBuffer GL_UNIFORM_BUFFER (generated_transformBlockUBO env),
      glBufferData GL_UNIFORM_BUFFER (transform_uboSize env) GL_DYNAMIC_DRAW,
      glBindBufferBase GL_UNIFORM_BUFFER 0 (generated_transformBlockUBO env),
      glBindBuffer GL_UNIFORM_BUFFER 0]"

text \<open>
  \<open>Scene::Init\<close> of the shadow-volume scene. The result is the scene, the OpenGL
  commands issued and the generator state; \<open>reserve\<close> throws \<open>std::length_error\<close> for a
  negative count. The samplers that \<open>Textures\<close> creates belong to that collaborator, not
  to the scene.
\<close>

definition Init ::
  "getRandom_fn \<Rightarrow> init_env \<Rightarrow> nat \<Rightarrow> int \<Rightarrow> int \<Rightarrow> scene \<Rightarrow> fault + (scene \<times> gl_cmd list \<times> nat)" where
  "Init getRandom env g numCubes' numLights' sc =
     (if vao sc \<noteq> 0 then Inr (sc, [], g)
      else if numCubes' < 0 then Inl LengthError
      else (case gen_cubes getRandom numCubes' 1 g (cubePositions sc @ [Vec3 0 0.5 0]) of
              (cubes, g1) \<Rightarrow>
                if numLights' < 0 then Inl LengthError
                else (case gen_lights getRandom numLights' (ambientIntensity_of numLights') 1 g1
                             (lights sc @
                              [\<lparr>position = Vec3 (- 3) 3 0,
                                color = Color4 10 10 10 (ambientIntensity_of numLights'),
                                movement = Vec4 0 1 0 0\<rparr>]) of
                        Inl e \<Rightarrow> Inl e
                      | Inr (ls, g2) \<Rightarrow>
                          Inr (sc\<lparr>numCubes := numCubes',
                                  numLights := numLights',
                                  quad := Some (created_quad env),
                                  cube := Some (created_cube env),
                                  cubeAdjacency := Some (created_cubeAdjacency env),
                                  vao := generated_vao env,
                                  instancingBuffer := generated_instancingBuffer env,
                                  transformBlockUBO := generated_transformBlockUBO env,
                                  cubePositions := cubes,
                                  lights := ls,
                                  loadedTextures := created_textures env\<rparr>,
                               Init_buffers env, g2))))"

subsection \<open>The spotlight scene\<close>

record SpotLight =
  spot_position :: vec3
  spot_color :: color4
  spot_movement :: vec4
  lightDirection :: vec3
  innerLightAngleDegrees :: real
  outerLightAngleDegrees :: real
  lightDistance :: real

text \<open>The fields of \<open>class Scene\<close> of the spotlight scene (\<open>scene.h\<close>).\<close>

record spot_scene =
  sp_loadedTextures :: "LoadedTexture \<Rightarrow> nat"
  sp_numCubes :: int
  sp_cubePositions :: "vec3 list"
  sp_numPointLights :: int
  sp_numSpotLights :: int
  sp_lights :: "Light list"
  sp_spotLights :: "SpotLight list"
  sp_vao :: nat
  sp_quad :: "mesh option"
  sp_cube :: "mesh option"
  sp_cubeAdjacency :: "mesh option"
  sp_instancingBuffer :: nat
  sp_transformBlockUBO :: nat
  sp_depthMapTexture :: nat
  sp_depthMapFBO :: nat

definition Init_spot ::
  "getRandom_fn \<Rightarrow> init_env \<Rightarrow> nat \<Rightarrow> int \<Rightarrow> int \<Rightarrow> spot_scene \<Rightarrow>
     fault + (spot_scene \<times> gl_cmd list \<times> nat)" where
  "Init_spot getRandom env g numCubes' numLights' sc =
     (if sp_vao sc \<noteq> 0 then Inr (sc, [], g)
      else if numCubes' < 0 then Inl LengthError
      else (case gen_cubes getRandom numCubes' 1 g (sp_cubePositions sc @ [Vec3 0 0.5 0]) of
              (cubes, g1) \<Rightarrow>
                if numLights' < 0 then Inl LengthError
                else (case gen_lights getRandom numLights' (ambientIntensity_of numLights') 1 g1
                             (sp_lights sc @
                              [\<lparr>position = Vec3 (- 3) 3 0,
                                color = Color4 10 10 10 (ambientIntensity_of numLights'),
                                movement = Vec4 0 1 0 0\<rparr>]) of
                        Inl e \<Rightarrow> Inl e
                      | Inr (ls, g2) \<Rightarrow>
                          Inr (sc\<lparr>sp_numCubes := numCubes',
                                  sp_numSpotLights := 1,
                                  sp_numPointLights := numLights',
                                  sp_quad := Some (created_quad env),
                                  sp_cube := Some (created_cube env),
                                  sp_cubeAdjacency := Some (created_cubeAdjacency env),
                                  sp_vao := generated_vao env,
                                  sp_instancingBuffer := generated_instancingBuffer env,
                                  sp_transformBlockUBO := generated_transformBlockUBO env,
                                  sp_cubePositions := cubes,
                                  sp_lights := ls,
                                  sp_spotLights := sp_spotLights sc @
                                    [\<lparr>spot_position = Vec3 (- 3) 2 0,
                                      spot_color = Color4 10 10 10 (ambientIntensity_of numLights'),
                                      spot_movement = Vec4 2 1 1 0,
                                      lightDirection = Vec3 0.5 (- 0.5) 0,
                                      innerLightAngleDegrees = 30,
                                      outerLightAngleDegrees = 40,
                                      lightDistance = 5000\<rparr>],
                                  sp_loadedTextures := created_textures env\<rparr>,
                               Init_buffers env, g2))))"

section \<open>The OpenGL state the frame depends on\<close>

text \<open>
  The part of the OpenGL context that the commands of the scene set and that decides
  what a draw call writes: capabilities, write masks, the stencil function and operations
  and the program in use.
\<close>

record gl_state =
  cull_face_enabled :: bool
  blend_enabled :: bool
  depth_test_enabled :: bool
  depth_clamp_enabled :: bool
  stencil_test_enabled :: bool
  multisample_enabled :: bool
  color_mask :: "bool \<times> bool \<times> bool \<times> bool"
  depth_mask :: bool
  stencil_func :: "gl_func \<times> nat \<times> nat"
  stencil_op_front :: "gl_stencil_op \<times> gl_stencil_op \<times> gl_stencil_op"
  stencil_op_back :: "gl_stencil_op \<times> gl_stencil_op \<times> gl_stencil_op"
  current_program :: "ShaderProgram option"

fun set_cap :: "gl_cap \<Rightarrow> bool \<Rightarrow> gl_state \<Rightarrow> gl_state" where
  "set_cap GL_BLEND b s = s\<lparr>blend_enabled := b\<rparr>"
| "set_cap GL_CULL_FACE b s = s\<lparr>cull_face_enabled := b\<rparr>"
| "set_cap GL_DEPTH_TEST b s = s\<lparr>depth_test_enabled := b\<rparr>"
| "set_cap GL_DEPTH_CLAMP b s = s\<lparr>depth_clamp_enabled := b\<rparr>"
| "set_cap GL_STENCIL_TEST b s = s\<lparr>stencil_test_enabled := b\<rparr>"
| "set_cap GL_MULTISAMPLE b s = s\<lparr>multisample_enabled := b\<rparr>"

fun exec :: "gl_cmd \<Rightarrow> gl_state \<Rightarrow> gl_state" where
  "exec (glEnable c) s = set_cap c True s"
| "exec (glDisable c) s = set_cap c False s"
| "exec (glColorMask r g b a) s = s\<lparr>color_mask := (r, g, b, a)\<rparr>"
| "exec (glDepthMask b) s = s\<lparr>depth_mask := b\<rparr>"
| "exec (glStencilFunc f r m) s = s\<lparr>stencil_func := (f, r, m)\<rparr>"
| "exec (glStencilOp sf df dp) s = s\<lparr>stencil_op_front := (sf, df, dp), stencil_op_back := (sf, df, dp)\<rparr>"
| "exec (glStencilOpSeparate GL_FRONT sf df dp) s = s\<lparr>stencil_op_front := (sf, df, dp)\<rparr>"
| "exec (glStencilOpSeparate GL_BACK sf df dp) s = s\<lparr>stencil_op_back := (sf, df, dp)\<rparr>"
| "exec (glStencilOpSeparate GL_FRONT_AND_BACK sf df dp) s =
     s\<lparr>stencil_op_front := (sf, df, dp), stencil_op_back := (sf, df, dp)\<rparr>"
| "exec (glUseProgram p) s = s\<lparr>current_program := Some p\<rparr>"
| "exec c s = s"

fun run :: "gl_cmd list \<Rightarrow> gl_state \<Rightarrow> gl_state" where
  "run [] s = s"
| "run (c # cs) s = run cs (exec c s)"

fun is_draw :: "gl_cmd \<Rightarrow> bool" where
  "is_draw (glDrawElements p n) = True"
| "is_draw (glDrawElementsInstanced p n k) = True"
| "is_draw (glDrawArrays p f n) = True"
| "is_draw c = False"

text \<open>
  The draw calls of a command list, each with the state it is issued in, when the list
  is run from the state \<open>s\<close>.
\<close>

fun draw_calls :: "gl_cmd list \<Rightarrow> gl_state \<Rightarrow> (gl_cmd \<times> gl_state) list" where
  "draw_calls [] s = []"
| "draw_calls (c # cs) s =
     (if is_draw c then [(c, s)] else []) @ draw_calls cs (exec c s)"

text \<open>Whether a command binds a buffer to the indexed uniform binding point \<open>k\<close>.\<close>

fun binds_slot :: "nat \<Rightarrow> gl_cmd \<Rightarrow> bool" where
  "binds_slot k (glBindBufferBase t i b) = (i = k)"
| "binds_slot k c = False"

text \<open>The state of a fresh OpenGL context.\<close>

definition gl_initial :: gl_state where
  "gl_initial =
     \<lparr>cull_face_enabled = False, blend_enabled = False, depth_test_enabled = False,
      depth_clamp_enabled = False, stencil_test_enabled = False, multisample_enabled = True,
      color_mask = (True, True, True, True), depth_mask = True,
      stencil_func = (GL_ALWAYS, 0, 255),
      stencil_op_front = (GL_KEEP, GL_KEEP, GL_KEEP),
      stencil_op_back = (GL_KEEP, GL_KEEP, GL_KEEP),
      current_program = None\<rparr>"

section \<open>A small scene\<close>

text \<open>An initialised scene with one cube and one light, a camera and render settings.\<close>

definition light1 :: Light where
  "light1 = \<lparr>position = Vec3 (- 3) 3 0, color = Color4 10 10 10 (Finite (1 / 1000)),
             movement = Vec4 0 1 0 0\<rparr>"

definition scene1 :: scene where
  "scene1 =
     \<lparr>loadedTextures = (\<lambda>t. 1), numCubes = 1, cubePositions = [Vec3 0 0.5 0],
      numLights = 1, lights = [light1], vao = 1,
      quad = Some \<lparr>VAO = 2, IBOSize = 6\<rparr>,
      cube = Some \<lparr>VAO = 3, IBOSize = 36\<rparr>,
      cubeAdjacency = Some \<lparr>VAO = 4, IBOSize = 72\<rparr>,
      instancingBuffer = 1, transformBlockUBO = 2\<rparr>"



text \<open>
  A scene as the constructor leaves it, the results of the collaborators for one call of
  \<open>Scene::Init\<close>, and a generator that always returns the middle of the range.
\<close>

definition fresh_scene :: scene where
  "fresh_scene =
     \<lparr>loadedTextures = (\<lambda>t. 0), numCubes = 10, cubePositions = [],
      numLights = 0, lights = [], vao = 0, quad = None, cube = None, cubeAdjacency = None,
      instancingBuffer = 0, transformBlockUBO = 0\<rparr>"

definition env1 :: init_env where
  "env1 =
     \<lparr>created_quad = \<lparr>VAO = 2, IBOSize = 6\<rparr>,
      created_cube = \<lparr>VAO = 3, IBOSize = 36\<rparr>,
      created_cubeAdjacency = \<lparr>VAO = 4, IBOSize = 72\<rparr>,
      generated_vao = 1, generated_instancingBuffer = 1, generated_transformBlockUBO = 2,
      instancing_uboSize = 49152, transform_uboSize = 112,
      created_textures = (\<lambda>t. 1)\<rparr>"

definition getRandom_mid :: getRandom_fn where
  "getRandom_mid g lo hi = ((lo + hi) / 2, Suc g)"

text \<open>An initialised spotlight scene, and one as the constructor leaves it.\<close>

definition spot_scene1 :: spot_scene where
  "spot_scene1 =
     \<lparr>sp_loadedTextures = (\<lambda>t. 1), sp_numCubes = 1, sp_cubePositions = [Vec3 0 0.5 0],
      sp_numPointLights = 1, sp_numSpotLights = 1, sp_lights = [light1],
      sp_spotLights =
        [\<lparr>spot_position = Vec3 (- 3) 2 0, spot_color = Color4 10 10 10 (Finite (1 / 1000)),
          spot_movement = Vec4 2 1 1 0, lightDirection = Vec3 0.5 (- 0.5) 0,
          innerLightAngleDegrees = 30, outerLightAngleDegrees = 40, lightDistance = 5000\<rparr>],
      sp_vao = 1,
      sp_quad = Some \<lparr>VAO = 2, IBOSize = 6\<rparr>,
      sp_cube = Some \<lparr>VAO = 3, IBOSize = 36\<rparr>,
      sp_cubeAdjacency = Some \<lparr>VAO = 4, IBOSize = 72\<rparr>,
      sp_instancingBuffer = 1, sp_transformBlockUBO = 2,
      sp_depthMapTexture = 0, sp_depthMapFBO = 0\<rparr>"

definition fresh_spot_scene :: spot_scene where
  "fresh_spot_scene =
     \<lparr>sp_loadedTextures = (\<lambda>t. 0), sp_numCubes = 10, sp_cubePositions = [],
      sp_numPointLights = 0, sp_numSpotLights = 0, sp_lights = [], sp_spotLights = [],
      sp_vao = 0, sp_quad = None, sp_cube = None, sp_cubeAdjacency = None,
      sp_instancingBuffer = 0, sp_transformBlockUBO = 0,
      sp_depthMapTexture = 0, sp_depthMapFBO = 0\<rparr>"

definition camera1 :: camera where
  "camera1 = \<lparr>WorldToView = Opaque 0, ViewToWorld = Opaque 1, Projection = Opaque 2\<rparr>"

definition settings1 :: RenderSettings where
  "settings1 = \<lparr>vsync = True, wireframe = False, tonemapping = True, msaaLevel = 4\<rparr>"

definition staging1 :: "mat list" where
  "staging1 = replicate MAX_INSTANCES (Opaque 0)"

section \<open>Supporting lemmas\<close>

subsection \<open>Command lists and states\<close>

lemma append_result_simps [simp]:
  "append_result (Inl e) b = Inl e"
  "append_result (Inr x) (Inl e) = Inl e"
  "append_result (Inr x) (Inr y) = Inr (x @ y)"
  by (simp_all add: append_result_def)

lemma append_result_Inr:
  "append_result a b = Inr c \<longleftrightarrow> (\<exists>x y. a = Inr x \<and> b = Inr y \<and> c = x @ y)"
  by (cases a; cases b) auto

lemma run_append: "run (a @ b) s = run b (run a s)"
  by (induction a arbitrary: s) auto

lemma draw_calls_append: "draw_calls (a @ b) s = draw_calls a s @ draw_calls b (run a s)"
  by (induction a arbitrary: s) auto

lemma pass_flags [simp]:
  "DepthPass AND LightPass = 0" "DepthPass AND ShadowVolume = 0"
  "DepthPass AND DirectLight = 0" "DepthPass AND AmbientLight = 0"
  "DepthPass AND (ShadowVolume OR LightPass) = 0"
  "ShadowVolume AND LightPass = 0" "ShadowVolume AND ShadowVolume \<noteq> 0"
  "ShadowVolume AND DirectLight = 0" "ShadowVolume AND AmbientLight = 0"
  "ShadowVolume AND (ShadowVolume OR LightPass) \<noteq> 0"
  "DirectLight AND LightPass \<noteq> 0" "DirectLight AND ShadowVolume = 0"
  "DirectLight AND DirectLight \<noteq> 0" "DirectLight AND AmbientLight = 0"
  "DirectLight AND (ShadowVolume OR LightPass) \<noteq> 0"
  "AmbientLight AND LightPass \<noteq> 0" "AmbientLight AND ShadowVolume = 0"
  "AmbientLight AND DirectLight = 0" "AmbientLight AND AmbientLight \<noteq> 0"
  "AmbientLight AND (ShadowVolume OR LightPass) \<noteq> 0"
  "DepthPass \<noteq> 0" "ShadowVolume \<noteq> 0" "DirectLight \<noteq> 0" "AmbientLight \<noteq> 0"
  "LightPass \<noteq> 0"
  by (simp_all add: DepthPass_def ShadowVolume_def DirectLight_def AmbientLight_def LightPass_def)

lemma run_UpdateProgramData [simp]: "run (UpdateProgramData p rp cam lp lc) s = s"
  by (simp add: UpdateProgramData_def)

lemma draw_calls_UpdateProgramData [simp]: "draw_calls (UpdateProgramData p rp cam lp lc) s = []"
  by (simp add: UpdateProgramData_def)

lemma run_BindTextures [simp]: "run (BindTextures a b c d) s = s"
  by (simp add: BindTextures_def)

lemma draw_calls_BindTextures [simp]: "draw_calls (BindTextures a b c d) s = []"
  by (simp add: BindTextures_def)

lemma Ball_draw_calls:
  "(\<forall>(c, d) \<in> set (draw_calls cmds s). P d) \<longleftrightarrow> (\<forall>d \<in> set (map snd (draw_calls cmds s)). P d)"
  by auto

lemma length_draw_calls: "length (draw_calls cmds s) = length (map snd (draw_calls cmds s))"
  by simp

subsection \<open>The commands of each pass\<close>

lemma DrawBackground_Inr:
  "DrawBackground sc p rp cam lp lc = Inr bg \<Longrightarrow>
     \<exists>q. quad sc = Some q \<and>
       run bg s = s\<lparr>current_program := Some p\<rparr> \<and>
       draw_calls bg s =
         [(glDrawElements GL_TRIANGLES (IBOSize q), s\<lparr>current_program := Some p\<rparr>),
          (glDrawElements GL_TRIANGLES (IBOSize q), s\<lparr>current_program := Some p\<rparr>),
          (glDrawElements GL_TRIANGLES (IBOSize q), s\<lparr>current_program := Some p\<rparr>)]"
  by (auto simp: DrawBackground_def run_append draw_calls_append split: option.splits)

lemma DrawObjects_Inr:
  "DrawObjects sc p rp cam lp lc = Inr ob \<Longrightarrow>
     \<exists>m. (if rp AND ShadowVolume \<noteq> 0 then cubeAdjacency sc else cube sc) = Some m \<and>
       run ob s = (if rp AND AmbientLight \<noteq> 0
                   then s\<lparr>current_program := Some PointRendering, blend_enabled := False\<rparr>
                   else s\<lparr>current_program := Some p\<rparr>) \<and>
       draw_calls ob s =
         (glDrawElementsInstanced
            (if rp AND ShadowVolume \<noteq> 0 then GL_TRIANGLES_ADJACENCY else GL_TRIANGLES)
            (IBOSize m) (numCubes sc), s\<lparr>current_program := Some p\<rparr>) #
         (if rp AND AmbientLight \<noteq> 0
          then [(glDrawArrays GL_POINTS 0 1,
                 s\<lparr>current_program := Some PointRendering, blend_enabled := False\<rparr>)]
          else [])"
  by (auto simp: DrawObjects_def run_append draw_calls_append split: option.splits if_splits)

lemma shadowPass_Inr:
  "shadowPass sc cam cr lp lc = Inr sv \<Longrightarrow>
     \<exists>m. cubeAdjacency sc = Some m \<and>
       sv = [glDisable GL_CULL_FACE, glStencilFunc GL_ALWAYS 0 255] @
            (if cr
             then [glStencilOpSeparate GL_BACK GL_KEEP GL_INCR_WRAP GL_KEEP,
                   glStencilOpSeparate GL_FRONT GL_KEEP GL_DECR_WRAP GL_KEEP]
             else [glStencilOpSeparate GL_BACK GL_KEEP GL_KEEP GL_DECR_WRAP,
                   glStencilOpSeparate GL_FRONT GL_KEEP GL_KEEP GL_INCR_WRAP]) @
            [glUseProgram InstancedShadowVolume,
             glUniform4f (UniformLocation InstancedShadowVolume ''lightPosWS'')
               (vec3_x lp) (vec3_y lp) (vec3_z lp) (Finite 0),
             glBindBufferBase GL_UNIFORM_BUFFER 1 (instancingBuffer sc),
             glBindVertexArray (VAO m),
             glDrawElementsInstanced GL_TRIANGLES_ADJACENCY (IBOSize m) (numCubes sc),
             glBindBufferBase GL_UNIFORM_BUFFER 1 0,
             glEnable GL_CULL_FACE]"
  by (auto simp: shadowPass_def DrawObjects_def UpdateProgramData_def append_result_Inr
           split: option.splits if_splits)

lemma lightPass_Inr:
  "lightPass sc cam rp lp lc = Inr cmds \<Longrightarrow>
     \<exists>bg ob. DrawBackground sc Default rp cam lp lc = Inr bg \<and>
       DrawObjects sc Instancing rp cam lp lc = Inr ob \<and>
       cmds = [glEnable GL_BLEND, glBlendEquation GL_FUNC_ADD, glBlendFunc GL_ONE GL_ONE,
               glStencilFunc GL_EQUAL 0 255, glStencilOp GL_KEEP GL_KEEP GL_KEEP] @
              bg @ ob @ [glDisable GL_BLEND]"
  by (auto simp: lightPass_def append_result_Inr)

lemma depthPass_Inr:
  "depthPass sc cam = Inr cmds \<Longrightarrow>
     \<exists>bg ob. DrawBackground sc DefaultDepthPass DepthPass cam (Vec3 0 0 0) (Color4 0 0 0 (Finite 0)) = Inr bg \<and>
       DrawObjects sc InstancingDepthPass DepthPass cam (Vec3 0 0 0) (Color4 0 0 0 (Finite 0)) = Inr ob \<and>
       cmds = bg @ ob"
  by (auto simp: depthPass_def append_result_Inr)

lemma light_iteration_Inr:
  "light_iteration sc cam cr l = Inr it \<Longrightarrow>
     \<exists>sv dl al. shadowPass sc cam cr (position l) (color l) = Inr sv \<and>
       lightPass sc cam DirectLight (position l) (color l) = Inr dl \<and>
       lightPass sc cam AmbientLight (position l) (color l) = Inr al \<and>
       it = [glClear [GL_STENCIL_BUFFER_BIT], glEnable GL_STENCIL_TEST,
             glColorMask False False False False] @ sv @
            [glColorMask True True True True] @ dl @
            [glDisable GL_STENCIL_TEST] @ al"
  by (auto simp: light_iteration_def append_result_Inr)

lemma light_loop_Inr:
  "light_loop sc cam cr i = Inr cmds \<Longrightarrow>
     \<exists>its. length its = nat (numLights sc) - i \<and> cmds = concat its \<and>
       (\<forall>k < length its. i + k < length (lights sc) \<and>
           light_iteration sc cam cr (lights sc ! (i + k)) = Inr (its ! k))"
proof (induction sc cam cr i arbitrary: cmds rule: light_loop.induct)
  case (1 sc cam cr i)
  show ?case
  proof (cases "int i < numLights sc")
    case False
    with "1.prems" have "cmds = []" by (simp add: light_loop.simps [of sc cam cr i])
    with False show ?thesis by (intro exI [of _ "[]"]) simp
  next
    case True
    with "1.prems" have len: "i < length (lights sc)"
      by (simp add: light_loop.simps [of sc cam cr i] split: if_splits)
    from "1.prems" True len obtain it rest where
      it: "light_iteration sc cam cr (lights sc ! i) = Inr it" and
      rest: "light_loop sc cam cr (Suc i) = Inr rest" and
      cmds: "cmds = it @ rest"
      by (auto simp: light_loop.simps [of sc cam cr i] append_result_Inr)
    from "1.IH" [OF True len rest] obtain its where
      its: "length its = nat (numLights sc) - Suc i" "rest = concat its"
        "\<forall>k < length its. Suc i + k < length (lights sc) \<and>
            light_iteration sc cam cr (lights sc ! (Suc i + k)) = Inr (its ! k)"
      by blast
    have "length (it # its) = nat (numLights sc) - i"
      using its(1) True by simp
    moreover have "cmds = concat (it # its)"
      using cmds its(2) by simp
    moreover have "\<forall>k < length (it # its). i + k < length (lights sc) \<and>
        light_iteration sc cam cr (lights sc ! (i + k)) = Inr ((it # its) ! k)"
    proof (intro allI impI)
      fix k assume k: "k < length (it # its)"
      show "i + k < length (lights sc) \<and>
        light_iteration sc cam cr (lights sc ! (i + k)) = Inr ((it # its) ! k)"
      proof (cases k)
        case 0
        then show ?thesis using len it by simp
      next
        case (Suc j)
        with k have "j < length its" by simp
        with its(3) Suc show ?thesis by simp
      qed
    qed
    ultimately show ?thesis by blast
  qed
qed

lemma Draw_Inr:
  "Draw sc cam rm cr buf = Inr (cmds, buf') \<Longrightarrow>
     \<exists>upload dp ll. UpdateInstanceData sc buf = Inr (upload, buf') \<and>
       depthPass sc cam = Inr dp \<and> light_loop sc cam cr 0 = Inr ll \<and>
       cmds = UpdateTransformBlock sc cam @ upload @ frame_setup rm @
              [glColorMask False False False False] @ dp @
              [glDepthMask False] @ ll @ [glColorMask True True True True]"
  by (auto simp: Draw_def append_result_Inr split: sum.splits)

lemma depthPass_cmds:
  assumes "depthPass sc cam = Inr dp"
  shows "dp =
     [glUseProgram DefaultDepthPass,
      glBindVertexArray (VAO (the (quad sc))),
      glUniformMatrix4x3fv (LiteralLocation 0) (ToMat4x3 (Scale (Vec3 30 1 30))),
      glDrawElements GL_TRIANGLES (IBOSize (the (quad sc))),
      glUniformMatrix4x3fv (LiteralLocation 0)
        (ToMat4x3 (Mul (Mul (Translate (Vec3 0 0 15)) (Rotate (- PI_HALF) (Vec3 1 0 0)))
                       (Scale (Vec3 30 1 30)))),
      glDrawElements GL_TRIANGLES (IBOSize (the (quad sc))),
      glUniformMatrix4x3fv (LiteralLocation 0)
        (ToMat4x3 (Mul (Mul (Translate (Vec3 15 0 0)) (Rotate PI_HALF (Vec3 0 0 1)))
                       (Scale (Vec3 30 1 30)))),
      glDrawElements GL_TRIANGLES (IBOSize (the (quad sc))),
      glUseProgram InstancingDepthPass,
      glBindBufferBase GL_UNIFORM_BUFFER 1 (instancingBuffer sc),
      glBindVertexArray (VAO (the (cube sc))),
      glDrawElementsInstanced GL_TRIANGLES (IBOSize (the (cube sc))) (numCubes sc),
      glBindBufferBase GL_UNIFORM_BUFFER 1 0]"
  using assms
  by (auto simp: depthPass_def DrawBackground_def DrawObjects_def UpdateProgramData_def
        append_result_Inr split: option.splits)

lemma UpdateInstanceData_Inr:
  assumes "UpdateInstanceData sc buf = Inr (upload, buf')"
  shows "fill_instanceData sc 0 buf = Inr buf'" and "0 \<le> numCubes sc"
    and "upload =
      [glBindBufferBase GL_UNIFORM_BUFFER 1 (instancingBuffer sc),
       glMapBuffer GL_UNIFORM_BUFFER GL_WRITE_ONLY,
       memcpy_mapped (nat (numCubes sc) * sizeof_InstanceData) (take (nat (numCubes sc)) buf'),
       glUnmapBuffer GL_UNIFORM_BUFFER,
       glBindBufferBase GL_UNIFORM_BUFFER 1 0]"
  using assms by (auto simp: UpdateInstanceData_def split: sum.splits if_splits)

lemma shadowPass_scene1:
  "shadowPass scene1 camera1 cr (position light1) (color light1) =
     Inr ([glDisable GL_CULL_FACE, glStencilFunc GL_ALWAYS 0 255] @
            (if cr
             then [glStencilOpSeparate GL_BACK GL_KEEP GL_INCR_WRAP GL_KEEP,
                   glStencilOpSeparate GL_FRONT GL_KEEP GL_DECR_WRAP GL_KEEP]
             else [glStencilOpSeparate GL_BACK GL_KEEP GL_KEEP GL_DECR_WRAP,
                   glStencilOpSeparate GL_FRONT GL_KEEP GL_KEEP GL_INCR_WRAP]) @
            [glUseProgram InstancedShadowVolume,
             glUniform4f (UniformLocation InstancedShadowVolume ''lightPosWS'')
               (- 3) 3 0 (Finite 0),
             glBindBufferBase GL_UNIFORM_BUFFER 1 1,
             glBindVertexArray 4,
             glDrawElementsInstanced GL_TRIANGLES_ADJACENCY 72 1,
             glBindBufferBase GL_UNIFORM_BUFFER 1 0,
             glEnable GL_CULL_FACE])"
  by (simp add: shadowPass_def DrawObjects_def UpdateProgramData_def scene1_def light1_def)

subsection \<open>The states at the draw calls\<close>

lemma shadowPass_draw_calls:
  assumes "shadowPass sc cam cr lp lc = Inr sv"
  shows "\<exists>m. cubeAdjacency sc = Some m \<and>
     draw_calls sv s =
       [(glDrawElementsInstanced GL_TRIANGLES_ADJACENCY (IBOSize m) (numCubes sc),
         s\<lparr>cull_face_enabled := False, stencil_func := (GL_ALWAYS, 0, 255),
           stencil_op_back := (if cr then (GL_KEEP, GL_INCR_WRAP, GL_KEEP)
                               else (GL_KEEP, GL_KEEP, GL_DECR_WRAP)),
           stencil_op_front := (if cr then (GL_KEEP, GL_DECR_WRAP, GL_KEEP)
                                else (GL_KEEP, GL_KEEP, GL_INCR_WRAP)),
           current_program := Some InstancedShadowVolume\<rparr>)] \<and>
     run sv s =
        s\<lparr>cull_face_enabled := True, stencil_func := (GL_ALWAYS, 0, 255),
           stencil_op_back := (if cr then (GL_KEEP, GL_INCR_WRAP, GL_KEEP)
                               else (GL_KEEP, GL_KEEP, GL_DECR_WRAP)),
           stencil_op_front := (if cr then (GL_KEEP, GL_DECR_WRAP, GL_KEEP)
                                else (GL_KEEP, GL_KEEP, GL_INCR_WRAP)),
           current_program := Some InstancedShadowVolume\<rparr>"
proof -
  from shadowPass_Inr [OF assms] obtain m where m: "cubeAdjacency sc = Some m" and
    sv: "sv = [glDisable GL_CULL_FACE, glStencilFunc GL_ALWAYS 0 255] @
            (if cr
             then [glStencilOpSeparate GL_BACK GL_KEEP GL_INCR_WRAP GL_KEEP,
                   glStencilOpSeparate GL_FRONT GL_KEEP GL_DECR_WRAP GL_KEEP]
             else [glStencilOpSeparate GL_BACK GL_KEEP GL_KEEP GL_DECR_WRAP,
                   glStencilOpSeparate GL_FRONT GL_KEEP GL_KEEP GL_INCR_WRAP]) @
            [glUseProgram InstancedShadowVolume,
             glUniform4f (UniformLocation InstancedShadowVolume ''lightPosWS'')
               (vec3_x lp) (vec3_y lp) (vec3_z lp) (Finite 0),
             glBindBufferBase GL_UNIFORM_BUFFER 1 (instancingBuffer sc),
             glBindVertexArray (VAO m),
             glDrawElementsInstanced GL_TRIANGLES_ADJACENCY (IBOSize m) (numCubes sc),
             glBindBufferBase GL_UNIFORM_BUFFER 1 0,
             glEnable GL_CULL_FACE]"
    by blast
  show ?thesis
    by (rule exI [of _ m]) (cases cr; simp add: m sv)
qed

lemma lightPass_draw_calls:
  assumes "lightPass sc cam rp lp lc = Inr cmds"
  shows "\<exists>q m. quad sc = Some q \<and>
     (if rp AND ShadowVolume \<noteq> 0 then cubeAdjacency sc else cube sc) = Some m \<and>
     draw_calls cmds s =
       [(glDrawElements GL_TRIANGLES (IBOSize q),
         s\<lparr>blend_enabled := True, stencil_func := (GL_EQUAL, 0, 255),
           stencil_op_front := (GL_KEEP, GL_KEEP, GL_KEEP),
           stencil_op_back := (GL_KEEP, GL_KEEP, GL_KEEP), current_program := Some Default\<rparr>),
        (glDrawElements GL_TRIANGLES (IBOSize q),
         s\<lparr>blend_enabled := True, stencil_func := (GL_EQUAL, 0, 255),
           stencil_op_front := (GL_KEEP, GL_KEEP, GL_KEEP),
           stencil_op_back := (GL_KEEP, GL_KEEP, GL_KEEP), current_program := Some Default\<rparr>),
        (glDrawElements GL_TRIANGLES (IBOSize q),
         s\<lparr>blend_enabled := True, stencil_func := (GL_EQUAL, 0, 255),
           stencil_op_front := (GL_KEEP, GL_KEEP, GL_KEEP),
           stencil_op_back := (GL_KEEP, GL_KEEP, GL_KEEP), current_program := Some Default\<rparr>),
        (glDrawElementsInstanced
           (if rp AND ShadowVolume \<noteq> 0 then GL_TRIANGLES_ADJACENCY else GL_TRIANGLES)
           (IBOSize m) (numCubes sc),
         s\<lparr>blend_enabled := True, stencil_func := (GL_EQUAL, 0, 255),
           stencil_op_front := (GL_KEEP, GL_KEEP, GL_KEEP),
           stencil_op_back := (GL_KEEP, GL_KEEP, GL_KEEP), current_program := Some Instancing\<rparr>)] @
       (if rp AND AmbientLight \<noteq> 0
        then [(glDrawArrays GL_POINTS 0 1,
               s\<lparr>blend_enabled := False, stencil_func := (GL_EQUAL, 0, 255),
                 stencil_op_front := (GL_KEEP, GL_KEEP, GL_KEEP),
                 stencil_op_back := (GL_KEEP, GL_KEEP, GL_KEEP),
                 current_program := Some PointRendering\<rparr>)]
        else []) \<and>
     run cmds s =
       s\<lparr>blend_enabled := False, stencil_func := (GL_EQUAL, 0, 255),
         stencil_op_front := (GL_KEEP, GL_KEEP, GL_KEEP),
         stencil_op_back := (GL_KEEP, GL_KEEP, GL_KEEP),
         current_program := Some (if rp AND AmbientLight \<noteq> 0 then PointRendering else Instancing)\<rparr>"
proof -
  from lightPass_Inr [OF assms] obtain bg ob where
    bg: "DrawBackground sc Default rp cam lp lc = Inr bg" and
    ob: "DrawObjects sc Instancing rp cam lp lc = Inr ob" and
    cmds: "cmds = [glEnable GL_BLEND, glBlendEquation GL_FUNC_ADD, glBlendFunc GL_ONE GL_ONE,
               glStencilFunc GL_EQUAL 0 255, glStencilOp GL_KEEP GL_KEEP GL_KEEP] @
              bg @ ob @ [glDisable GL_BLEND]"
    by blast
  define s1 where "s1 = s\<lparr>blend_enabled := True, stencil_func := (GL_EQUAL, 0, 255),
           stencil_op_front := (GL_KEEP, GL_KEEP, GL_KEEP),
           stencil_op_back := (GL_KEEP, GL_KEEP, GL_KEEP)\<rparr>"
  from DrawBackground_Inr [OF bg, of s1] obtain q where q: "quad sc = Some q" and
    bg_run: "run bg s1 = s1\<lparr>current_program := Some Default\<rparr>" and
    bg_draws: "draw_calls bg s1 =
         [(glDrawElements GL_TRIANGLES (IBOSize q), s1\<lparr>current_program := Some Default\<rparr>),
          (glDrawElements GL_TRIANGLES (IBOSize q), s1\<lparr>current_program := Some Default\<rparr>),
          (glDrawElements GL_TRIANGLES (IBOSize q), s1\<lparr>current_program := Some Default\<rparr>)]"
    by blast
  from DrawObjects_Inr [OF ob, of "s1\<lparr>current_program := Some Default\<rparr>"] obtain m where
    m: "(if rp AND ShadowVolume \<noteq> 0 then cubeAdjacency sc else cube sc) = Some m" and
    ob_run: "run ob (s1\<lparr>current_program := Some Default\<rparr>) =
        (if rp AND AmbientLight \<noteq> 0
         then s1\<lparr>current_program := Some Default\<rparr>\<lparr>current_program := Some PointRendering, blend_enabled := False\<rparr>
         else s1\<lparr>current_program := Some Default\<rparr>\<lparr>current_program := Some Instancing\<rparr>)" and
    ob_draws: "draw_calls ob (s1\<lparr>current_program := Some Default\<rparr>) =
         (glDrawElementsInstanced
            (if rp AND ShadowVolume \<noteq> 0 then GL_TRIANGLES_ADJACENCY else GL_TRIANGLES)
            (IBOSize m) (numCubes sc), s1\<lparr>current_program := Some Default\<rparr>\<lparr>current_program := Some Instancing\<rparr>) #
         (if rp AND AmbientLight \<noteq> 0
          then [(glDrawArrays GL_POINTS 0 1,
                 s1\<lparr>current_program := Some Default\<rparr>\<lparr>current_program := Some PointRendering, blend_enabled := False\<rparr>)]
          else [])"
    by blast
  have pre: "run [glEnable GL_BLEND, glBlendEquation GL_FUNC_ADD, glBlendFunc GL_ONE GL_ONE,
               glStencilFunc GL_EQUAL 0 255, glStencilOp GL_KEEP GL_KEEP GL_KEEP] s = s1"
    by (simp add: s1_def)
  have pre_draws: "draw_calls [glEnable GL_BLEND, glBlendEquation GL_FUNC_ADD, glBlendFunc GL_ONE GL_ONE,
               glStencilFunc GL_EQUAL 0 255, glStencilOp GL_KEEP GL_KEEP GL_KEEP] s = []"
    by simp
  show ?thesis
    apply (rule exI [of _ q], rule exI [of _ m])
    apply (simp only: cmds draw_calls_append run_append pre pre_draws bg_run bg_draws ob_run ob_draws q m)
    apply (cases "rp AND AmbientLight = 0")
     apply (simp_all add: s1_def)
    done
qed

lemma shadowPass_states:
  assumes "shadowPass sc cam cr lp lc = Inr sv"
  shows "map snd (draw_calls sv s) =
       [s\<lparr>cull_face_enabled := False, stencil_func := (GL_ALWAYS, 0, 255),
           stencil_op_back := (if cr then (GL_KEEP, GL_INCR_WRAP, GL_KEEP)
                               else (GL_KEEP, GL_KEEP, GL_DECR_WRAP)),
           stencil_op_front := (if cr then (GL_KEEP, GL_DECR_WRAP, GL_KEEP)
                                else (GL_KEEP, GL_KEEP, GL_INCR_WRAP)),
           current_program := Some InstancedShadowVolume\<rparr>]"
    and "run sv s =
        s\<lparr>cull_face_enabled := True, stencil_func := (GL_ALWAYS, 0, 255),
           stencil_op_back := (if cr then (GL_KEEP, GL_INCR_WRAP, GL_KEEP)
                               else (GL_KEEP, GL_KEEP, GL_DECR_WRAP)),
           stencil_op_front := (if cr then (GL_KEEP, GL_DECR_WRAP, GL_KEEP)
                                else (GL_KEEP, GL_KEEP, GL_INCR_WRAP)),
           current_program := Some InstancedShadowVolume\<rparr>"
  using shadowPass_draw_calls [OF assms, of s] by auto

lemma lightPass_states:
  assumes "lightPass sc cam rp lp lc = Inr cmds"
  shows "map snd (draw_calls cmds s) =
       [s\<lparr>blend_enabled := True, stencil_func := (GL_EQUAL, 0, 255),
           stencil_op_front := (GL_KEEP, GL_KEEP, GL_KEEP),
           stencil_op_back := (GL_KEEP, GL_KEEP, GL_KEEP), current_program := Some Default\<rparr>,
        s\<lparr>blend_enabled := True, stencil_func := (GL_EQUAL, 0, 255),
           stencil_op_front := (GL_KEEP, GL_KEEP, GL_KEEP),
           stencil_op_back := (GL_KEEP, GL_KEEP, GL_KEEP), current_program := Some Default\<rparr>,
        s\<lparr>blend_enabled := True, stencil_func := (GL_EQUAL, 0, 255),
           stencil_op_front := (GL_KEEP, GL_KEEP, GL_KEEP),
           stencil_op_back := (GL_KEEP, GL_KEEP, GL_KEEP), current_program := Some Default\<rparr>,
        s\<lparr>blend_enabled := True, stencil_func := (GL_EQUAL, 0, 255),
           stencil_op_front := (GL_KEEP, GL_KEEP, GL_KEEP),
           stencil_op_back := (GL_KEEP, GL_KEEP, GL_KEEP), current_program := Some Instancing\<rparr>] @
       (if rp AND AmbientLight \<noteq> 0
        then [s\<lparr>blend_enabled := False, stencil_func := (GL_EQUAL, 0, 255),
                 stencil_op_front := (GL_KEEP, GL_KEEP, GL_KEEP),
                 stencil_op_back := (GL_KEEP, GL_KEEP, GL_KEEP),
                 current_program := Some PointRendering\<rparr>]
        else [])"
    and "run cmds s =
       s\<lparr>blend_enabled := False, stencil_func := (GL_EQUAL, 0, 255),
         stencil_op_front := (GL_KEEP, GL_KEEP, GL_KEEP),
         stencil_op_back := (GL_KEEP, GL_KEEP, GL_KEEP),
         current_program := Some (if rp AND AmbientLight \<noteq> 0 then PointRendering else Instancing)\<rparr>"
  using lightPass_draw_calls [OF assms, of s] by auto

lemma light_iteration_states:
  assumes sv: "shadowPass sc cam cr lp lc = Inr sv"
    and dl: "lightPass sc cam DirectLight lp lc = Inr dl"
    and al: "lightPass sc cam AmbientLight lp lc = Inr al"
    and s1: "s1 = run [glClear [GL_STENCIL_BUFFER_BIT], glEnable GL_STENCIL_TEST,
                       glColorMask False False False False] s"
    and s2: "s2 = run (sv @ [glColorMask True True True True]) s1"
    and s3: "s3 = run (dl @ [glDisable GL_STENCIL_TEST]) s2"
  shows "(\<forall>(c, d) \<in> set (draw_calls sv s1).
            current_program d = Some InstancedShadowVolume \<and>
            stencil_func d = (GL_ALWAYS, 0, 255) \<and> \<not> cull_face_enabled d \<and>
            color_mask d = (False, False, False, False) \<and> stencil_test_enabled d \<and>
            depth_mask d = depth_mask s)"
    and "length (draw_calls sv s1) = 1"
    and "cull_face_enabled (run sv s1)"
    and "(\<forall>(c, d) \<in> set (draw_calls dl s2).
            current_program d \<noteq> Some InstancedShadowVolume \<and>
            color_mask d = (True, True, True, True) \<and> stencil_test_enabled d \<and>
            stencil_func d = (GL_EQUAL, 0, 255) \<and> depth_mask d = depth_mask s)"
    and "length (draw_calls dl s2) = 4"
    and "(\<forall>(c, d) \<in> set (draw_calls al s3).
            current_program d \<noteq> Some InstancedShadowVolume \<and>
            color_mask d = (True, True, True, True) \<and> \<not> stencil_test_enabled d \<and>
            depth_mask d = depth_mask s)"
    and "length (draw_calls al s3) = 5"
    and "depth_mask (run al s3) = depth_mask s"
proof -
  have e1: "stencil_test_enabled s1" "color_mask s1 = (False, False, False, False)"
    "depth_mask s1 = depth_mask s"
    by (simp_all add: s1)
  note svd = shadowPass_states(1) [OF sv, of s1]
  note svr = shadowPass_states(2) [OF sv, of s1]
  show "\<forall>(c, d) \<in> set (draw_calls sv s1).
            current_program d = Some InstancedShadowVolume \<and>
            stencil_func d = (GL_ALWAYS, 0, 255) \<and> \<not> cull_face_enabled d \<and>
            color_mask d = (False, False, False, False) \<and> stencil_test_enabled d \<and>
            depth_mask d = depth_mask s"
    unfolding Ball_draw_calls svd by (simp add: e1)
  show "length (draw_calls sv s1) = 1"
    unfolding length_draw_calls svd by simp
  show "cull_face_enabled (run sv s1)"
    by (simp add: svr)
  have f2: "color_mask s2 = (True, True, True, True)" "stencil_test_enabled s2"
    "depth_mask s2 = depth_mask s"
    by (simp_all add: s2 run_append svr e1)
  note dld = lightPass_states(1) [OF dl, of s2]
  note dlr = lightPass_states(2) [OF dl, of s2]
  show "\<forall>(c, d) \<in> set (draw_calls dl s2).
            current_program d \<noteq> Some InstancedShadowVolume \<and>
            color_mask d = (True, True, True, True) \<and> stencil_test_enabled d \<and>
            stencil_func d = (GL_EQUAL, 0, 255) \<and> depth_mask d = depth_mask s"
    unfolding Ball_draw_calls dld by (simp add: f2)
  show "length (draw_calls dl s2) = 4"
    unfolding length_draw_calls dld by simp
  have f3: "color_mask s3 = (True, True, True, True)" "\<not> stencil_test_enabled s3"
    "depth_mask s3 = depth_mask s"
    by (simp_all add: s3 run_append dlr f2)
  note ald = lightPass_states(1) [OF al, of s3]
  note alr = lightPass_states(2) [OF al, of s3]
  show "\<forall>(c, d) \<in> set (draw_calls al s3).
            current_program d \<noteq> Some InstancedShadowVolume \<and>
            color_mask d = (True, True, True, True) \<and> \<not> stencil_test_enabled d \<and>
            depth_mask d = depth_mask s"
    unfolding Ball_draw_calls ald by (simp add: f3)
  show "length (draw_calls al s3) = 5"
    unfolding length_draw_calls ald by simp
  show "depth_mask (run al s3) = depth_mask s"
    by (simp add: alr f3)
qed

lemma depthPass_states:
  assumes "depthPass sc cam = Inr dp"
  shows "map snd (draw_calls dp s) =
       [s\<lparr>current_program := Some DefaultDepthPass\<rparr>,
        s\<lparr>current_program := Some DefaultDepthPass\<rparr>,
        s\<lparr>current_program := Some DefaultDepthPass\<rparr>,
        s\<lparr>current_program := Some InstancingDepthPass\<rparr>]"
    and "map fst (draw_calls dp s) =
       [glDrawElements GL_TRIANGLES (IBOSize (the (quad sc))),
        glDrawElements GL_TRIANGLES (IBOSize (the (quad sc))),
        glDrawElements GL_TRIANGLES (IBOSize (the (quad sc))),
        glDrawElementsInstanced GL_TRIANGLES (IBOSize (the (cube sc))) (numCubes sc)]"
    and "run dp s = s\<lparr>current_program := Some InstancingDepthPass\<rparr>"
    and "quad sc \<noteq> None" and "cube sc \<noteq> None"
proof -
  from depthPass_Inr [OF assms] obtain bg ob where
    bg: "DrawBackground sc DefaultDepthPass DepthPass cam (Vec3 0 0 0) (Color4 0 0 0 (Finite 0)) = Inr bg" and
    ob: "DrawObjects sc InstancingDepthPass DepthPass cam (Vec3 0 0 0) (Color4 0 0 0 (Finite 0)) = Inr ob" and
    dp: "dp = bg @ ob"
    by blast
  from DrawBackground_Inr [OF bg, of s] DrawObjects_Inr [OF ob, of "s\<lparr>current_program := Some DefaultDepthPass\<rparr>"]
  show "map snd (draw_calls dp s) =
       [s\<lparr>current_program := Some DefaultDepthPass\<rparr>,
        s\<lparr>current_program := Some DefaultDepthPass\<rparr>,
        s\<lparr>current_program := Some DefaultDepthPass\<rparr>,
        s\<lparr>current_program := Some InstancingDepthPass\<rparr>]"
    and "map fst (draw_calls dp s) =
       [glDrawElements GL_TRIANGLES (IBOSize (the (quad sc))),
        glDrawElements GL_TRIANGLES (IBOSize (the (quad sc))),
        glDrawElements GL_TRIANGLES (IBOSize (the (quad sc))),
        glDrawElementsInstanced GL_TRIANGLES (IBOSize (the (cube sc))) (numCubes sc)]"
    and "run dp s = s\<lparr>current_program := Some InstancingDepthPass\<rparr>"
    and "quad sc \<noteq> None" and "cube sc \<noteq> None"
    by (auto simp: dp draw_calls_append run_append)
qed

lemma frame_prefix_state:
  assumes "UpdateInstanceData sc buf = Inr (upload, buf')"
  shows "draw_calls (UpdateTransformBlock sc cam @ upload @ frame_setup rm @
            [glColorMask False False False False]) s = []"
    and "run (UpdateTransformBlock sc cam @ upload @ frame_setup rm @
            [glColorMask False False False False]) s =
         s\<lparr>multisample_enabled := msaaLevel rm > 1, cull_face_enabled := True,
           depth_test_enabled := True, depth_clamp_enabled := True, depth_mask := True,
           color_mask := (False, False, False, False)\<rparr>"
  by (simp_all add: UpdateInstanceData_Inr(3) [OF assms] UpdateTransformBlock_def frame_setup_def)

lemma light_iterations_draws:
  assumes "\<forall>it \<in> set its. \<exists>l. light_iteration sc cam cr l = Inr it" "\<not> depth_mask s"
  shows "(\<forall>(c, d) \<in> set (draw_calls (concat its) s).
            current_program d = Some InstancedShadowVolume \<longrightarrow>
            stencil_func d = (GL_ALWAYS, 0, 255) \<and> \<not> cull_face_enabled d \<and>
            color_mask d = (False, False, False, False) \<and> \<not> depth_mask d) \<and>
         \<not> depth_mask (run (concat its) s)"
  using assms
proof (induction its arbitrary: s)
  case Nil
  then show ?case by simp
next
  case (Cons it its)
  from Cons.prems(1) obtain l where "light_iteration sc cam cr l = Inr it"
    by auto
  from light_iteration_Inr [OF this] obtain sv dl al where
    sv: "shadowPass sc cam cr (position l) (color l) = Inr sv" and
    dl: "lightPass sc cam DirectLight (position l) (color l) = Inr dl" and
    al: "lightPass sc cam AmbientLight (position l) (color l) = Inr al" and
    it: "it = [glClear [GL_STENCIL_BUFFER_BIT], glEnable GL_STENCIL_TEST,
               glColorMask False False False False] @ sv @
              [glColorMask True True True True] @ dl @
              [glDisable GL_STENCIL_TEST] @ al"
    by blast
  define s1 where "s1 = run [glClear [GL_STENCIL_BUFFER_BIT], glEnable GL_STENCIL_TEST,
                       glColorMask False False False False] s"
  define s2 where "s2 = run (sv @ [glColorMask True True True True]) s1"
  define s3 where "s3 = run (dl @ [glDisable GL_STENCIL_TEST]) s2"
  note facts = light_iteration_states [OF sv dl al s1_def s2_def s3_def]
  have dc: "draw_calls it s = draw_calls sv s1 @ draw_calls dl s2 @ draw_calls al s3"
    unfolding it s1_def s2_def s3_def by (simp add: draw_calls_append run_append)
  have r: "run it s = run al s3"
    unfolding it s1_def s2_def s3_def by (simp add: run_append)
  have here: "\<forall>(c, d) \<in> set (draw_calls it s).
            current_program d = Some InstancedShadowVolume \<longrightarrow>
            stencil_func d = (GL_ALWAYS, 0, 255) \<and> \<not> cull_face_enabled d \<and>
            color_mask d = (False, False, False, False) \<and> \<not> depth_mask d"
    unfolding dc using facts(1,4,6) Cons.prems(2) by auto
  have dm: "\<not> depth_mask (run it s)"
    unfolding r using facts(8) Cons.prems(2) by simp
  from Cons.prems(1) have "\<forall>it \<in> set its. \<exists>l. light_iteration sc cam cr l = Inr it"
    by simp
  from Cons.IH [OF this dm] here dm show ?case
    by (auto simp: draw_calls_append run_append)
qed

lemma shadowPass_draw:
  assumes "shadowPass sc cam cr lp lc = Inr sv"
  shows "map fst (draw_calls sv s) =
     [glDrawElementsInstanced GL_TRIANGLES_ADJACENCY (IBOSize (the (cubeAdjacency sc)))
        (numCubes sc)]"
  using shadowPass_draw_calls [OF assms, of s] by auto

lemma light_iterations_shadow_count:
  assumes "\<forall>it \<in> set its. \<exists>l. light_iteration sc cam cr l = Inr it"
  shows "length (filter (\<lambda>(c, d). current_program d = Some InstancedShadowVolume)
           (draw_calls (concat its) s)) = length its"
  using assms
proof (induction its arbitrary: s)
  case Nil
  then show ?case by simp
next
  case (Cons it its)
  from Cons.prems obtain l where "light_iteration sc cam cr l = Inr it"
    by auto
  from light_iteration_Inr [OF this] obtain sv dl al where
    sv: "shadowPass sc cam cr (position l) (color l) = Inr sv" and
    dl: "lightPass sc cam DirectLight (position l) (color l) = Inr dl" and
    al: "lightPass sc cam AmbientLight (position l) (color l) = Inr al" and
    it: "it = [glClear [GL_STENCIL_BUFFER_BIT], glEnable GL_STENCIL_TEST,
               glColorMask False False False False] @ sv @
              [glColorMask True True True True] @ dl @
              [glDisable GL_STENCIL_TEST] @ al"
    by blast
  define s1 where "s1 = run [glClear [GL_STENCIL_BUFFER_BIT], glEnable GL_STENCIL_TEST,
                       glColorMask False False False False] s"
  define s2 where "s2 = run (sv @ [glColorMask True True True True]) s1"
  define s3 where "s3 = run (dl @ [glDisable GL_STENCIL_TEST]) s2"
  note facts = light_iteration_states [OF sv dl al s1_def s2_def s3_def]
  have dc: "draw_calls it s = draw_calls sv s1 @ draw_calls dl s2 @ draw_calls al s3"
    unfolding it s1_def s2_def s3_def by (simp add: draw_calls_append run_append)
  have a: "filter (\<lambda>(c, d). current_program d = Some InstancedShadowVolume) (draw_calls sv s1) =
      draw_calls sv s1"
    using facts(1) by (intro filter_True) auto
  have b: "filter (\<lambda>(c, d). current_program d = Some InstancedShadowVolume) (draw_calls dl s2) = []"
    using facts(4) by (intro filter_False) auto
  have c: "filter (\<lambda>(c, d). current_program d = Some InstancedShadowVolume) (draw_calls al s3) = []"
    using facts(6) by (intro filter_False) auto
  have here: "length (filter (\<lambda>(c, d). current_program d = Some InstancedShadowVolume)
      (draw_calls it s)) = 1"
    unfolding dc by (simp add: a b c facts(2))
  from Cons.prems have "\<forall>it \<in> set its. \<exists>l. light_iteration sc cam cr l = Inr it"
    by simp
  from Cons.IH [OF this, of "run it s"] here show ?case
    by (simp add: draw_calls_append)
qed

subsection \<open>Frames that complete\<close>

lemma fill_instanceData_Inr:
  assumes "numCubes sc = int n" "n \<le> length buf" "n \<le> length (cubePositions sc)" "i \<le> n"
  shows "fill_instanceData sc i buf =
     Inr (take i buf @ map (\<lambda>k. instance_transformation (cubePositions sc ! k) k) [i..<n] @
          drop n buf)"
  using assms
proof (induction "n - i" arbitrary: i buf)
  case 0
  then have "i = n" by simp
  with 0 show ?case by (subst fill_instanceData.simps) simp
next
  case (Suc d)
  then have lt: "i < n" by simp
  have IH: "fill_instanceData sc (Suc i) (buf[i := instance_transformation (cubePositions sc ! i) i]) =
     Inr (take (Suc i) (buf[i := instance_transformation (cubePositions sc ! i) i]) @
          map (\<lambda>k. instance_transformation (cubePositions sc ! k) k) [Suc i..<n] @
          drop n (buf[i := instance_transformation (cubePositions sc ! i) i]))"
    using Suc.hyps(2) Suc.prems lt by (intro Suc.hyps(1)) simp_all
  have t: "take (Suc i) (buf[i := instance_transformation (cubePositions sc ! i) i]) =
      take i buf @ [instance_transformation (cubePositions sc ! i) i]"
    using lt Suc.prems(2) by (simp add: take_Suc_conv_app_nth)
  have d: "drop n (buf[i := instance_transformation (cubePositions sc ! i) i]) = drop n buf"
    using lt by simp
  have u: "[i..<n] = i # [Suc i..<n]"
    using lt by (simp add: upt_conv_Cons)
  show ?case
    using lt Suc.prems IH
    by (simp add: fill_instanceData.simps [of sc i buf] t d u)
qed

lemma fill_instanceData_overflow:
  assumes "numCubes sc = int n" "length buf < n" "n \<le> length (cubePositions sc)"
    "i \<le> length buf"
  shows "fill_instanceData sc i buf = Inl (WriteOutOfRange (length buf))"
  using assms
proof (induction "length buf - i" arbitrary: i buf)
  case 0
  then have "i = length buf" by simp
  with 0 show ?case by (subst fill_instanceData.simps) simp
next
  case (Suc d)
  then have lt: "i < length buf" by simp
  have "fill_instanceData sc (Suc i) (buf[i := instance_transformation (cubePositions sc ! i) i]) =
     Inl (WriteOutOfRange (length (buf[i := instance_transformation (cubePositions sc ! i) i])))"
    using Suc.hyps(2) Suc.prems lt by (intro Suc.hyps(1)) simp_all
  then show ?case
    using lt Suc.prems by (simp add: fill_instanceData.simps [of sc i buf])
qed

lemma light_iteration_completes:
  assumes "quad sc = Some q" "cube sc = Some c" "cubeAdjacency sc = Some a"
  shows "\<exists>it. light_iteration sc cam cr l = Inr it"
  using assms
  by (simp add: light_iteration_def shadowPass_def lightPass_def DrawBackground_def
        DrawObjects_def)

lemma light_loop_completes:
  assumes "quad sc = Some q" "cube sc = Some c" "cubeAdjacency sc = Some a"
    "numLights sc \<le> int (length (lights sc))"
  shows "\<exists>ll. light_loop sc cam cr i = Inr ll"
proof (induction "nat (numLights sc) - i" arbitrary: i)
  case 0
  then have "\<not> int i < numLights sc" by linarith
  then show ?case by (simp add: light_loop.simps [of sc cam cr i])
next
  case (Suc d)
  then have lt: "int i < numLights sc" by linarith
  with assms(4) have len: "i < length (lights sc)" by linarith
  from Suc have "\<exists>ll. light_loop sc cam cr (Suc i) = Inr ll"
    by (intro Suc.hyps(1)) linarith
  moreover from light_iteration_completes [OF assms(1-3)]
  have "\<exists>it. light_iteration sc cam cr (lights sc ! i) = Inr it" .
  ultimately show ?case
    using lt len by (auto simp: light_loop.simps [of sc cam cr i])
qed

lemma Draw_completes:
  assumes "quad sc = Some q" "cube sc = Some c" "cubeAdjacency sc = Some a"
    "numLights sc \<le> int (length (lights sc))"
    "0 \<le> numCubes sc" "numCubes sc \<le> int (length (cubePositions sc))"
    "numCubes sc \<le> int (length buf)"
  shows "\<exists>cmds buf'. Draw sc cam rm cr buf = Inr (cmds, buf')"
proof -
  obtain n where n: "numCubes sc = int n"
    using assms(5) by (metis nonneg_int_cases)
  from fill_instanceData_Inr [OF n, of buf 0] assms(6,7) n
  obtain b where b: "fill_instanceData sc 0 buf = Inr b" by auto
  from light_loop_completes [OF assms(1-4)] obtain ll where
    ll: "light_loop sc cam cr 0 = Inr ll" by blast
  have "\<exists>dp. depthPass sc cam = Inr dp"
    using assms(1,2) by (simp add: depthPass_def DrawBackground_def DrawObjects_def)
  then obtain dp where dp: "depthPass sc cam = Inr dp" by blast
  show ?thesis
    using b ll dp assms(5) by (simp add: Draw_def UpdateInstanceData_def)
qed

lemma Draw_scene1_completes:
  "\<exists>cmds buf. Draw scene1 camera1 settings1 cr staging1 = Inr (cmds, buf)"
  by (rule Draw_completes [of scene1 "\<lparr>VAO = 2, IBOSize = 6\<rparr>" "\<lparr>VAO = 3, IBOSize = 36\<rparr>"
        "\<lparr>VAO = 4, IBOSize = 72\<rparr>"])
     (simp_all add: scene1_def staging1_def MAX_INSTANCES_def)

subsection \<open>The light update\<close>













subsection \<open>Binding points\<close>

lemma binds_slot_UpdateProgramData [simp]:
  "filter (binds_slot 0) (UpdateProgramData p rp cam lp lc) = []"
  by (simp add: UpdateProgramData_def)

lemma binds_slot_BindTextures [simp]: "filter (binds_slot 0) (BindTextures a b c d) = []"
  by (simp add: BindTextures_def)

lemma binds_slot_DrawBackground:
  "DrawBackground sc p rp cam lp lc = Inr bg \<Longrightarrow> filter (binds_slot 0) bg = []"
  by (auto simp: DrawBackground_def split: option.splits)

lemma binds_slot_DrawObjects:
  "DrawObjects sc p rp cam lp lc = Inr ob \<Longrightarrow> filter (binds_slot 0) ob = []"
  by (auto simp: DrawObjects_def split: option.splits if_splits)

lemma binds_slot_lightPass:
  "lightPass sc cam rp lp lc = Inr cmds \<Longrightarrow> filter (binds_slot 0) cmds = []"
  by (auto simp: lightPass_def append_result_Inr binds_slot_DrawBackground binds_slot_DrawObjects)

lemma binds_slot_shadowPass:
  "shadowPass sc cam cr lp lc = Inr cmds \<Longrightarrow> filter (binds_slot 0) cmds = []"
  by (auto simp: shadowPass_def append_result_Inr binds_slot_DrawObjects)

lemma binds_slot_depthPass:
  "depthPass sc cam = Inr cmds \<Longrightarrow> filter (binds_slot 0) cmds = []"
  by (auto simp: depthPass_def append_result_Inr binds_slot_DrawBackground binds_slot_DrawObjects)

lemma binds_slot_light_iteration:
  "light_iteration sc cam cr l = Inr cmds \<Longrightarrow> filter (binds_slot 0) cmds = []"
  by (auto simp: light_iteration_def append_result_Inr binds_slot_lightPass binds_slot_shadowPass)

lemma binds_slot_light_loop:
  assumes "light_loop sc cam cr 0 = Inr ll"
  shows "filter (binds_slot 0) ll = []"
proof -
  from light_loop_Inr [OF assms] obtain its where
    c: "ll = concat its" and
    its: "\<forall>k < length its. light_iteration sc cam cr (lights sc ! k) = Inr (its ! k)"
    by auto
  have "\<forall>it \<in> set its. filter (binds_slot 0) it = []"
    using its binds_slot_light_iteration by (metis in_set_conv_nth)
  then show ?thesis
    unfolding c by (induction its) simp_all
qed

subsection \<open>Initialisation of a scene\<close>

lemma Init_Inr:
  assumes "Init getRandom env g nC nL sc = Inr (sc', cmds, g')" and "vao sc = 0"
  shows "cmds = Init_buffers env" and "transformBlockUBO sc' = generated_transformBlockUBO env"
    and "vao sc' = generated_vao env"
  using assms by (auto simp: Init_def split: if_splits prod.splits sum.splits)

lemma gen_cubes_spec:
  assumes r: "\<And>g lo hi. lo \<le> hi \<Longrightarrow> lo \<le> fst (getRandom g lo hi) \<and> fst (getRandom g lo hi) \<le> hi"
  shows "gen_cubes getRandom n i g ps = (ps', g') \<Longrightarrow>
     \<exists>new. ps' = ps @ new \<and> length new = nat n - i \<and>
       (\<forall>p \<in> set new. - 5 \<le> vec3_x p \<and> vec3_x p \<le> 5 \<and> 1 \<le> vec3_y p \<and> vec3_y p \<le> 5 \<and>
                      - 5 \<le> vec3_z p \<and> vec3_z p \<le> 5)"
proof (induction "nat n - i" arbitrary: i g ps)
  case 0
  then have "\<not> int i < n" by linarith
  with "0.prems" have "ps' = ps"
    by (simp add: gen_cubes.simps [of getRandom n i g ps])
  with 0 show ?case by simp
next
  case (Suc d)
  then have lt: "int i < n" by linarith
  obtain x g1 where x: "getRandom g (- 5) 5 = (x, g1)" by (cases "getRandom g (- 5) 5")
  obtain y g2 where y: "getRandom g1 1 5 = (y, g2)" by (cases "getRandom g1 1 5")
  obtain z g3 where z: "getRandom g2 (- 5) 5 = (z, g3)" by (cases "getRandom g2 (- 5) 5")
  from Suc.prems lt x y z have rec: "gen_cubes getRandom n (Suc i) g3 (ps @ [Vec3 x y z]) = (ps', g')"
    by (simp add: gen_cubes.simps [of getRandom n i g ps])
  from Suc.hyps(2) have "d = nat n - Suc i" by simp
  from Suc.hyps(1) [OF this rec] obtain new where
    new: "ps' = (ps @ [Vec3 x y z]) @ new" "length new = nat n - Suc i"
      "\<forall>p \<in> set new. - 5 \<le> vec3_x p \<and> vec3_x p \<le> 5 \<and> 1 \<le> vec3_y p \<and> vec3_y p \<le> 5 \<and>
                      - 5 \<le> vec3_z p \<and> vec3_z p \<le> 5"
    by blast
  from r [of "- 5" 5 g] x have bx: "- 5 \<le> x \<and> x \<le> 5" by simp
  from r [of 1 5 g1] y have "1 \<le> y \<and> y \<le> 5" by simp
  moreover from r [of "- 5" 5 g2] z have "- 5 \<le> z \<and> z \<le> 5" by simp
  ultimately have box: "\<forall>p \<in> set (Vec3 x y z # new).
       - 5 \<le> vec3_x p \<and> vec3_x p \<le> 5 \<and> 1 \<le> vec3_y p \<and> vec3_y p \<le> 5 \<and>
       - 5 \<le> vec3_z p \<and> vec3_z p \<le> 5"
    using bx new(3) by simp
  have "ps' = ps @ (Vec3 x y z # new)" using new(1) by simp
  moreover have "length (Vec3 x y z # new) = nat n - i" using new(2) lt by simp
  ultimately show ?case using box by blast
qed

lemma Init_fresh_completes:
  "\<exists>sc1 icmds g1. Init getRandom_mid env1 0 5 1 fresh_scene = Inr (sc1, icmds, g1)"
  by (simp add: Init_def fresh_scene_def gen_cubes.simps gen_lights.simps getRandom_mid_def)

lemma Init_spot_fresh_completes:
  "\<exists>sc1 icmds g1. Init_spot getRandom_mid env1 0 5 1 fresh_spot_scene = Inr (sc1, icmds, g1)"
  by (simp add: Init_spot_def fresh_spot_scene_def gen_cubes.simps gen_lights.simps
        getRandom_mid_def)

section \<open>The light loop of a frame\<close>

text \<open>
  C1. In every frame that \<open>Scene::Draw\<close> renders, the commands end with one iteration per
  light, in the order of the lights, followed by the final colour mask. Each iteration
  clears the stencil buffer, enables the stencil test and disables colour writes, runs
  the shadow-volume pass (its draw call is issued with colour writes disabled and the
  stencil test enabled), enables colour writes, runs the direct-light pass (its draw calls
  are issued with colour writes enabled, the stencil test enabled and the stencil function
  \<open>GL_EQUAL 0\<close>), disables the stencil test and runs the ambient-light pass (its draw calls
  are issued with the stencil test disabled).
\<close>

theorem Draw_light_sequence:
  assumes "Draw sc cam renderMode carmackReverse instanceData = Inr (cmds, buf)"
  shows "\<exists>pre its.
     cmds = pre @ concat its @ [glColorMask True True True True] \<and>
     length its = nat (numLights sc) \<and>
     (\<forall>i < nat (numLights sc). \<exists>sv dl al.
        shadowPass sc cam carmackReverse (position (lights sc ! i)) (color (lights sc ! i)) = Inr sv \<and>
        lightPass sc cam DirectLight (position (lights sc ! i)) (color (lights sc ! i)) = Inr dl \<and>
        lightPass sc cam AmbientLight (position (lights sc ! i)) (color (lights sc ! i)) = Inr al \<and>
        its ! i =
          [glClear [GL_STENCIL_BUFFER_BIT], glEnable GL_STENCIL_TEST,
           glColorMask False False False False] @ sv @
          [glColorMask True True True True] @ dl @
          [glDisable GL_STENCIL_TEST] @ al \<and>
        (\<forall>s.
           length (draw_calls sv
             (run [glClear [GL_STENCIL_BUFFER_BIT], glEnable GL_STENCIL_TEST,
                   glColorMask False False False False] s)) = 1 \<and>
           (\<forall>(c, d) \<in> set (draw_calls sv
               (run [glClear [GL_STENCIL_BUFFER_BIT], glEnable GL_STENCIL_TEST,
                     glColorMask False False False False] s)).
              color_mask d = (False, False, False, False) \<and> stencil_test_enabled d) \<and>
           length (draw_calls dl
             (run ([glClear [GL_STENCIL_BUFFER_BIT], glEnable GL_STENCIL_TEST,
                    glColorMask False False False False] @ sv @
                   [glColorMask True True True True]) s)) = 4 \<and>
           (\<forall>(c, d) \<in> set (draw_calls dl
               (run ([glClear [GL_STENCIL_BUFFER_BIT], glEnable GL_STENCIL_TEST,
                      glColorMask False False False False] @ sv @
                     [glColorMask True True True True]) s)).
              color_mask d = (True, True, True, True) \<and> stencil_test_enabled d \<and>
              stencil_func d = (GL_EQUAL, 0, 255)) \<and>
           length (draw_calls al
             (run ([glClear [GL_STENCIL_BUFFER_BIT], glEnable GL_STENCIL_TEST,
                    glColorMask False False False False] @ sv @
                   [glColorMask True True True True] @ dl @
                   [glDisable GL_STENCIL_TEST]) s)) = 5 \<and>
           (\<forall>(c, d) \<in> set (draw_calls al
               (run ([glClear [GL_STENCIL_BUFFER_BIT], glEnable GL_STENCIL_TEST,
                      glColorMask False False False False] @ sv @
                     [glColorMask True True True True] @ dl @
                     [glDisable GL_STENCIL_TEST]) s)).
              color_mask d = (True, True, True, True) \<and> \<not> stencil_test_enabled d)))"
proof -
  from Draw_Inr [OF assms] obtain upload dp ll where
    ll: "light_loop sc cam carmackReverse 0 = Inr ll" and
    cmds: "cmds = UpdateTransformBlock sc cam @ upload @ frame_setup renderMode @
              [glColorMask False False False False] @ dp @
              [glDepthMask False] @ ll @ [glColorMask True True True True]"
    by blast
  from light_loop_Inr [OF ll] obtain its where
    len: "length its = nat (numLights sc)" and c: "ll = concat its" and
    its: "\<forall>k < length its. k < length (lights sc) \<and>
           light_iteration sc cam carmackReverse (lights sc ! k) = Inr (its ! k)"
    by auto
  define pre where "pre = UpdateTransformBlock sc cam @ upload @ frame_setup renderMode @
              [glColorMask False False False False] @ dp @ [glDepthMask False]"
  have "cmds = pre @ concat its @ [glColorMask True True True True]"
    by (simp add: cmds c pre_def)
  moreover have "\<exists>sv dl al.
        shadowPass sc cam carmackReverse (position (lights sc ! i)) (color (lights sc ! i)) = Inr sv \<and>
        lightPass sc cam DirectLight (position (lights sc ! i)) (color (lights sc ! i)) = Inr dl \<and>
        lightPass sc cam AmbientLight (position (lights sc ! i)) (color (lights sc ! i)) = Inr al \<and>
        its ! i =
          [glClear [GL_STENCIL_BUFFER_BIT], glEnable GL_STENCIL_TEST,
           glColorMask False False False False] @ sv @
          [glColorMask True True True True] @ dl @
          [glDisable GL_STENCIL_TEST] @ al \<and>
        (\<forall>s.
           length (draw_calls sv
             (run [glClear [GL_STENCIL_BUFFER_BIT], glEnable GL_STENCIL_TEST,
                   glColorMask False False False False] s)) = 1 \<and>
           (\<forall>(c, d) \<in> set (draw_calls sv
               (run [glClear [GL_STENCIL_BUFFER_BIT], glEnable GL_STENCIL_TEST,
                     glColorMask False False False False] s)).
              color_mask d = (False, False, False, False) \<and> stencil_test_enabled d) \<and>
           length (draw_calls dl
             (run ([glClear [GL_STENCIL_BUFFER_BIT], glEnable GL_STENCIL_TEST,
                    glColorMask False False False False] @ sv @
                   [glColorMask True True True True]) s)) = 4 \<and>
           (\<forall>(c, d) \<in> set (draw_calls dl
               (run ([glClear [GL_STENCIL_BUFFER_BIT], glEnable GL_STENCIL_TEST,
                      glColorMask False False False False] @ sv @
                     [glColorMask True True True True]) s)).
              color_mask d = (True, True, True, True) \<and> stencil_test_enabled d \<and>
              stencil_func d = (GL_EQUAL, 0, 255)) \<and>
           length (draw_calls al
             (run ([glClear [GL_STENCIL_BUFFER_BIT], glEnable GL_STENCIL_TEST,
                    glColorMask False False False False] @ sv @
                   [glColorMask True True True True] @ dl @
                   [glDisable GL_STENCIL_TEST]) s)) = 5 \<and>
           (\<forall>(c, d) \<in> set (draw_calls al
               (run ([glClear [GL_STENCIL_BUFFER_BIT], glEnable GL_STENCIL_TEST,
                      glColorMask False False False False] @ sv @
                     [glColorMask True True True True] @ dl @
                     [glDisable GL_STENCIL_TEST]) s)).
              color_mask d = (True, True, True, True) \<and> \<not> stencil_test_enabled d))"
    if i: "i < nat (numLights sc)" for i
  proof -
    from its i len have "light_iteration sc cam carmackReverse (lights sc ! i) = Inr (its ! i)"
      by simp
    from light_iteration_Inr [OF this] obtain sv dl al where
      sv: "shadowPass sc cam carmackReverse (position (lights sc ! i)) (color (lights sc ! i)) = Inr sv" and
      dl: "lightPass sc cam DirectLight (position (lights sc ! i)) (color (lights sc ! i)) = Inr dl" and
      al: "lightPass sc cam AmbientLight (position (lights sc ! i)) (color (lights sc ! i)) = Inr al" and
      it: "its ! i =
          [glClear [GL_STENCIL_BUFFER_BIT], glEnable GL_STENCIL_TEST,
           glColorMask False False False False] @ sv @
          [glColorMask True True True True] @ dl @
          [glDisable GL_STENCIL_TEST] @ al"
      by blast
    have st: "length (draw_calls sv
             (run [glClear [GL_STENCIL_BUFFER_BIT], glEnable GL_STENCIL_TEST,
                   glColorMask False False False False] s)) = 1 \<and>
           (\<forall>(c, d) \<in> set (draw_calls sv
               (run [glClear [GL_STENCIL_BUFFER_BIT], glEnable GL_STENCIL_TEST,
                     glColorMask False False False False] s)).
              color_mask d = (False, False, False, False) \<and> stencil_test_enabled d) \<and>
           length (draw_calls dl
             (run ([glClear [GL_STENCIL_BUFFER_BIT], glEnable GL_STENCIL_TEST,
                    glColorMask False False False False] @ sv @
                   [glColorMask True True True True]) s)) = 4 \<and>
           (\<forall>(c, d) \<in> set (draw_calls dl
               (run ([glClear [GL_STENCIL_BUFFER_BIT], glEnable GL_STENCIL_TEST,
                      glColorMask False False False False] @ sv @
                     [glColorMask True True True True]) s)).
              color_mask d = (True, True, True, True) \<and> stencil_test_enabled d \<and>
              stencil_func d = (GL_EQUAL, 0, 255)) \<and>
           length (draw_calls al
             (run ([glClear [GL_STENCIL_BUFFER_BIT], glEnable GL_STENCIL_TEST,
                    glColorMask False False False False] @ sv @
                   [glColorMask True True True True] @ dl @
                   [glDisable GL_STENCIL_TEST]) s)) = 5 \<and>
           (\<forall>(c, d) \<in> set (draw_calls al
               (run ([glClear [GL_STENCIL_BUFFER_BIT], glEnable GL_STENCIL_TEST,
                      glColorMask False False False False] @ sv @
                     [glColorMask True True True True] @ dl @
                     [glDisable GL_STENCIL_TEST]) s)).
              color_mask d = (True, True, True, True) \<and> \<not> stencil_test_enabled d)" for s
    proof -
      define s1 where "s1 = run [glClear [GL_STENCIL_BUFFER_BIT], glEnable GL_STENCIL_TEST,
                       glColorMask False False False False] s"
      define s2 where "s2 = run (sv @ [glColorMask True True True True]) s1"
      define s3 where "s3 = run (dl @ [glDisable GL_STENCIL_TEST]) s2"
      note facts = light_iteration_states [OF sv dl al s1_def s2_def s3_def]
      have r2: "run ([glClear [GL_STENCIL_BUFFER_BIT], glEnable GL_STENCIL_TEST,
                    glColorMask False False False False] @ sv @
                   [glColorMask True True True True]) s = s2"
        unfolding s2_def s1_def by (simp only: run_append)
      have r3: "run ([glClear [GL_STENCIL_BUFFER_BIT], glEnable GL_STENCIL_TEST,
                    glColorMask False False False False] @ sv @
                   [glColorMask True True True True] @ dl @
                   [glDisable GL_STENCIL_TEST]) s = s3"
        unfolding s3_def s2_def s1_def by (simp only: run_append)
      show ?thesis
        unfolding r2 r3 s1_def [symmetric]
        using facts by auto
    qed
    show ?thesis
      using sv dl al it st by blast
  qed
  ultimately show ?thesis
    using len by blast
qed

theorem Draw_light_sequence_witness:
  "\<exists>cmds buf pre it sv dl al.
     Draw scene1 camera1 settings1 True staging1 = Inr (cmds, buf) \<and>
     cmds = pre @ it @ [glColorMask True True True True] \<and>
     shadowPass scene1 camera1 True (position light1) (color light1) = Inr sv \<and>
     lightPass scene1 camera1 DirectLight (position light1) (color light1) = Inr dl \<and>
     lightPass scene1 camera1 AmbientLight (position light1) (color light1) = Inr al \<and>
     it = [glClear [GL_STENCIL_BUFFER_BIT], glEnable GL_STENCIL_TEST,
           glColorMask False False False False] @ sv @
          [glColorMask True True True True] @ dl @
          [glDisable GL_STENCIL_TEST] @ al \<and>
     length (draw_calls dl
       (run ([glClear [GL_STENCIL_BUFFER_BIT], glEnable GL_STENCIL_TEST,
              glColorMask False False False False] @ sv @
             [glColorMask True True True True]) gl_initial)) = 4 \<and>
     (\<forall>(c, d) \<in> set (draw_calls dl
         (run ([glClear [GL_STENCIL_BUFFER_BIT], glEnable GL_STENCIL_TEST,
                glColorMask False False False False] @ sv @
               [glColorMask True True True True]) gl_initial)).
        color_mask d = (True, True, True, True) \<and> stencil_test_enabled d \<and>
        stencil_func d = (GL_EQUAL, 0, 255))"
proof -
  have "\<exists>cmds buf. Draw scene1 camera1 settings1 True staging1 = Inr (cmds, buf)"
    by (rule Draw_completes [of scene1 "\<lparr>VAO = 2, IBOSize = 6\<rparr>" "\<lparr>VAO = 3, IBOSize = 36\<rparr>"
          "\<lparr>VAO = 4, IBOSize = 72\<rparr>"])
       (simp_all add: scene1_def staging1_def MAX_INSTANCES_def)
  then obtain cmds buf where d: "Draw scene1 camera1 settings1 True staging1 = Inr (cmds, buf)"
    by blast
  have n: "nat (numLights scene1) = 1" "lights scene1 ! 0 = light1"
    by (simp_all add: scene1_def)
  from Draw_light_sequence [OF d] obtain pre its where
    c: "cmds = pre @ concat its @ [glColorMask True True True True]" and
    len: "length its = nat (numLights scene1)" and
    i: "\<And>i. i < nat (numLights scene1) \<Longrightarrow> \<exists>sv dl al.
        shadowPass scene1 camera1 True (position (lights scene1 ! i)) (color (lights scene1 ! i)) = Inr sv \<and>
        lightPass scene1 camera1 DirectLight (position (lights scene1 ! i)) (color (lights scene1 ! i)) = Inr dl \<and>
        lightPass scene1 camera1 AmbientLight (position (lights scene1 ! i)) (color (lights scene1 ! i)) = Inr al \<and>
        its ! i =
          [glClear [GL_STENCIL_BUFFER_BIT], glEnable GL_STENCIL_TEST,
           glColorMask False False False False] @ sv @
          [glColorMask True True True True] @ dl @
          [glDisable GL_STENCIL_TEST] @ al \<and>
        (\<forall>s.
           length (draw_calls sv
             (run [glClear [GL_STENCIL_BUFFER_BIT], glEnable GL_STENCIL_TEST,
                   glColorMask False False False False] s)) = 1 \<and>
           (\<forall>(c, d) \<in> set (draw_calls sv
               (run [glClear [GL_STENCIL_BUFFER_BIT], glEnable GL_STENCIL_TEST,
                     glColorMask False False False False] s)).
              color_mask d = (False, False, False, False) \<and> stencil_test_enabled d) \<and>
           length (draw_calls dl
             (run ([glClear [GL_STENCIL_BUFFER_BIT], glEnable GL_STENCIL_TEST,
                    glColorMask False False False False] @ sv @
                   [glColorMask True True True True]) s)) = 4 \<and>
           (\<forall>(c, d) \<in> set (draw_calls dl
               (run ([glClear [GL_STENCIL_BUFFER_BIT], glEnable GL_STENCIL_TEST,
                      glColorMask False False False False] @ sv @
                     [glColorMask True True True True]) s)).
              color_mask d = (True, True, True, True) \<and> stencil_test_enabled d \<and>
              stencil_func d = (GL_EQUAL, 0, 255)) \<and>
           length (draw_calls al
             (run ([glClear [GL_STENCIL_BUFFER_BIT], glEnable GL_STENCIL_TEST,
                    glColorMask False False False False] @ sv @
                   [glColorMask True True True True] @ dl @
                   [glDisable GL_STENCIL_TEST]) s)) = 5 \<and>
           (\<forall>(c, d) \<in> set (draw_calls al
               (run ([glClear [GL_STENCIL_BUFFER_BIT], glEnable GL_STENCIL_TEST,
                      glColorMask False False False False] @ sv @
                     [glColorMask True True True True] @ dl @
                     [glDisable GL_STENCIL_TEST]) s)).
              color_mask d = (True, True, True, True) \<and> \<not> stencil_test_enabled d))"
    by blast
  have "0 < nat (numLights scene1)"
    by (simp add: n)
  from i [OF this] obtain sv dl al where
    sv: "shadowPass scene1 camera1 True (position light1) (color light1) = Inr sv" and
    dl: "lightPass scene1 camera1 DirectLight (position light1) (color light1) = Inr dl" and
    al: "lightPass scene1 camera1 AmbientLight (position light1) (color light1) = Inr al" and
    it: "its ! 0 =
          [glClear [GL_STENCIL_BUFFER_BIT], glEnable GL_STENCIL_TEST,
           glColorMask False False False False] @ sv @
          [glColorMask True True True True] @ dl @
          [glDisable GL_STENCIL_TEST] @ al" and
    st: "\<And>s. length (draw_calls dl
             (run ([glClear [GL_STENCIL_BUFFER_BIT], glEnable GL_STENCIL_TEST,
                    glColorMask False False False False] @ sv @
                   [glColorMask True True True True]) s)) = 4 \<and>
           (\<forall>(c, d) \<in> set (draw_calls dl
               (run ([glClear [GL_STENCIL_BUFFER_BIT], glEnable GL_STENCIL_TEST,
                      glColorMask False False False False] @ sv @
                     [glColorMask True True True True]) s)).
              color_mask d = (True, True, True, True) \<and> stencil_test_enabled d \<and>
              stencil_func d = (GL_EQUAL, 0, 255))"
    unfolding n by blast
  from len n have cc: "concat its = its ! 0"
    by (cases its) simp_all
  show ?thesis
    apply (rule exI [of _ cmds], rule exI [of _ buf], rule exI [of _ pre],
           rule exI [of _ "its ! 0"], rule exI [of _ sv], rule exI [of _ dl], rule exI [of _ al])
    apply (intro conjI)
           apply (rule d)
          apply (simp only: c cc)
         apply (rule sv)
        apply (rule dl)
       apply (rule al)
      apply (rule it)
     apply (rule st [THEN conjunct1])
    apply (rule st [THEN conjunct2])
    done
qed

section \<open>Stencil operations of the shadow-volume pass\<close>

text \<open>
  C2, as the code has it. With the depth-pass convention (\<open>carmackReverse\<close> false) the
  shadow-volume pass sets the stencil operations so that back faces decrement the stencil
  value on depth-test pass and front faces increment it on depth-test pass (both wrapping),
  and keep it otherwise; the shadow volume is drawn with these operations.
\<close>

theorem shadowPass_depth_pass_ops:
  assumes "shadowPass sc cam False lightPosition lightColor = Inr sv"
  shows "glStencilOpSeparate GL_BACK GL_KEEP GL_KEEP GL_DECR_WRAP \<in> set sv \<and>
     glStencilOpSeparate GL_FRONT GL_KEEP GL_KEEP GL_INCR_WRAP \<in> set sv \<and>
     map (\<lambda>(c, d). (stencil_op_back d, stencil_op_front d)) (draw_calls sv s) =
       [((GL_KEEP, GL_KEEP, GL_DECR_WRAP), (GL_KEEP, GL_KEEP, GL_INCR_WRAP))]"
proof -
  from shadowPass_Inr [OF assms] have
    "glStencilOpSeparate GL_BACK GL_KEEP GL_KEEP GL_DECR_WRAP \<in> set sv"
    "glStencilOpSeparate GL_FRONT GL_KEEP GL_KEEP GL_INCR_WRAP \<in> set sv"
    by auto
  moreover from shadowPass_draw_calls [OF assms, of s] have
    "map (\<lambda>(c, d). (stencil_op_back d, stencil_op_front d)) (draw_calls sv s) =
       [((GL_KEEP, GL_KEEP, GL_DECR_WRAP), (GL_KEEP, GL_KEEP, GL_INCR_WRAP))]"
    by auto
  ultimately show ?thesis by simp
qed

theorem shadowPass_depth_pass_ops_witness:
  "shadowPass scene1 camera1 False (position light1) (color light1) =
     Inr [glDisable GL_CULL_FACE, glStencilFunc GL_ALWAYS 0 255,
          glStencilOpSeparate GL_BACK GL_KEEP GL_KEEP GL_DECR_WRAP,
          glStencilOpSeparate GL_FRONT GL_KEEP GL_KEEP GL_INCR_WRAP,
          glUseProgram InstancedShadowVolume,
          glUniform4f (UniformLocation InstancedShadowVolume ''lightPosWS'') (- 3) 3 0 (Finite 0),
          glBindBufferBase GL_UNIFORM_BUFFER 1 1,
          glBindVertexArray 4,
          glDrawElementsInstanced GL_TRIANGLES_ADJACENCY 72 1,
          glBindBufferBase GL_UNIFORM_BUFFER 1 0,
          glEnable GL_CULL_FACE] \<and>
   map (\<lambda>(c, d). (stencil_op_back d, stencil_op_front d))
     (draw_calls [glDisable GL_CULL_FACE, glStencilFunc GL_ALWAYS 0 255,
          glStencilOpSeparate GL_BACK GL_KEEP GL_KEEP GL_DECR_WRAP,
          glStencilOpSeparate GL_FRONT GL_KEEP GL_KEEP GL_INCR_WRAP,
          glUseProgram InstancedShadowVolume,
          glUniform4f (UniformLocation InstancedShadowVolume ''lightPosWS'') (- 3) 3 0 (Finite 0),
          glBindBufferBase GL_UNIFORM_BUFFER 1 1,
          glBindVertexArray 4,
          glDrawElementsInstanced GL_TRIANGLES_ADJACENCY 72 1,
          glBindBufferBase GL_UNIFORM_BUFFER 1 0,
          glEnable GL_CULL_FACE] gl_initial) =
     [((GL_KEEP, GL_KEEP, GL_DECR_WRAP), (GL_KEEP, GL_KEEP, GL_INCR_WRAP))]"
proof -
  have e: "shadowPass scene1 camera1 False (position light1) (color light1) =
     Inr [glDisable GL_CULL_FACE, glStencilFunc GL_ALWAYS 0 255,
          glStencilOpSeparate GL_BACK GL_KEEP GL_KEEP GL_DECR_WRAP,
          glStencilOpSeparate GL_FRONT GL_KEEP GL_KEEP GL_INCR_WRAP,
          glUseProgram InstancedShadowVolume,
          glUniform4f (UniformLocation InstancedShadowVolume ''lightPosWS'') (- 3) 3 0 (Finite 0),
          glBindBufferBase GL_UNIFORM_BUFFER 1 1,
          glBindVertexArray 4,
          glDrawElementsInstanced GL_TRIANGLES_ADJACENCY 72 1,
          glBindBufferBase GL_UNIFORM_BUFFER 1 0,
          glEnable GL_CULL_FACE]"
    by (simp add: shadowPass_scene1)
  from shadowPass_depth_pass_ops [OF e, of gl_initial] e show ?thesis by blast
qed

theorem shadowPass_depth_pass_counterexample:
  "\<not> isl (shadowPass scene1 camera1 False (position light1) (color light1)) \<and>
   snd (snd (stencil_op_back (snd (hd (draw_calls
      (projr (shadowPass scene1 camera1 False (position light1) (color light1))) gl_initial)))))
     \<noteq> GL_INCR_WRAP \<and>
   snd (snd (stencil_op_front (snd (hd (draw_calls
      (projr (shadowPass scene1 camera1 False (position light1) (color light1))) gl_initial)))))
     \<noteq> GL_DECR_WRAP"
  by (simp add: shadowPass_scene1 gl_initial_def)

section \<open>Instance data upload\<close>

text \<open>
  C3, as the code has it. For a configured instance count \<open>n\<close> of at most
  \<open>MAX_INSTANCES\<close>, with a cube position for each instance, \<open>UpdateInstanceData\<close>
  completes, writes exactly the first \<open>n\<close> entries of the staging array (the entries from
  \<open>n\<close> on keep their old values) and copies exactly these \<open>n\<close> entries,
  \<open>n * sizeof (InstanceData)\<close> bytes, into the mapped buffer.
\<close>

theorem UpdateInstanceData_writes:
  assumes "numCubes sc = int n" and "n \<le> MAX_INSTANCES"
    and "length instanceData = MAX_INSTANCES" and "n \<le> length (cubePositions sc)"
  shows "UpdateInstanceData sc instanceData =
     Inr ([glBindBufferBase GL_UNIFORM_BUFFER 1 (instancingBuffer sc),
           glMapBuffer GL_UNIFORM_BUFFER GL_WRITE_ONLY,
           memcpy_mapped (n * sizeof_InstanceData)
             (map (\<lambda>i. instance_transformation (cubePositions sc ! i) i) [0..<n]),
           glUnmapBuffer GL_UNIFORM_BUFFER,
           glBindBufferBase GL_UNIFORM_BUFFER 1 0],
          map (\<lambda>i. instance_transformation (cubePositions sc ! i) i) [0..<n] @
          drop n instanceData) \<and>
     length (map (\<lambda>i. instance_transformation (cubePositions sc ! i) i) [0..<n]) = n \<and>
     length (map (\<lambda>i. instance_transformation (cubePositions sc ! i) i) [0..<n] @
             drop n instanceData) = MAX_INSTANCES"
proof -
  have f: "fill_instanceData sc 0 instanceData =
     Inr (map (\<lambda>i. instance_transformation (cubePositions sc ! i) i) [0..<n] @
          drop n instanceData)"
    using fill_instanceData_Inr [OF assms(1) _ assms(4), of instanceData 0] assms(2,3)
    by simp
  show ?thesis
    using assms by (simp add: UpdateInstanceData_def f)
qed

theorem UpdateInstanceData_writes_witness:
  "UpdateInstanceData scene1 staging1 =
     Inr ([glBindBufferBase GL_UNIFORM_BUFFER 1 1,
           glMapBuffer GL_UNIFORM_BUFFER GL_WRITE_ONLY,
           memcpy_mapped 48 [instance_transformation (Vec3 0 0.5 0) 0],
           glUnmapBuffer GL_UNIFORM_BUFFER,
           glBindBufferBase GL_UNIFORM_BUFFER 1 0],
          instance_transformation (Vec3 0 0.5 0) 0 # replicate 1023 (Opaque 0))"
proof -
  have "numCubes scene1 = int 1" "1 \<le> MAX_INSTANCES" "length staging1 = MAX_INSTANCES"
    "1 \<le> length (cubePositions scene1)"
    by (simp_all add: scene1_def staging1_def MAX_INSTANCES_def)
  from UpdateInstanceData_writes [OF this] show ?thesis
    by (simp add: scene1_def staging1_def MAX_INSTANCES_def sizeof_InstanceData_def
          sizeof_mat3x4_def sizeof_float_def)
qed

theorem UpdateInstanceData_counterexample:
  "UpdateInstanceData
     (scene1\<lparr>numCubes := 1025, cubePositions := replicate 1025 (Vec3 0 0.5 0)\<rparr>) staging1 =
   Inl (WriteOutOfRange 1024)"
proof -
  have "fill_instanceData
     (scene1\<lparr>numCubes := 1025, cubePositions := replicate 1025 (Vec3 0 0.5 0)\<rparr>) 0 staging1 =
     Inl (WriteOutOfRange (length staging1))"
    by (rule fill_instanceData_overflow [where n = 1025])
       (simp_all add: staging1_def MAX_INSTANCES_def)
  then show ?thesis
    by (simp add: UpdateInstanceData_def staging1_def MAX_INSTANCES_def)
qed

section \<open>Light positions\<close>




section \<open>Transform block layout and binding\<close>

text \<open>
  C5. \<open>UpdateTransformBlock\<close> writes the transposed world-to-view matrix, 48 bytes, at
  offset 0 of the transform buffer and the projection matrix, 64 bytes, at offset 48: the
  two regions are disjoint and adjacent. \<open>Scene::Init\<close> binds the buffer to binding
  point 0 once, and no command of a frame binds that binding point again.
\<close>

theorem TransformBlock_layout:
  "UpdateTransformBlock sc cam =
     [glBindBuffer GL_UNIFORM_BUFFER (transformBlockUBO sc),
      glBufferSubData GL_UNIFORM_BUFFER 0 48 (Transpose (WorldToView cam)),
      glBufferSubData GL_UNIFORM_BUFFER 48 64 (Projection cam),
      glBindBuffer GL_UNIFORM_BUFFER 0] \<and>
   sizeof_mat3x4 = 48 \<and> sizeof_mat4x4 = 64 \<and>
   {0 ..< sizeof_mat3x4} \<inter> {sizeof_mat3x4 ..< sizeof_mat3x4 + sizeof_mat4x4} = {} \<and>
   {0 ..< sizeof_mat3x4} \<union> {sizeof_mat3x4 ..< sizeof_mat3x4 + sizeof_mat4x4} =
     {0 ..< sizeof_mat3x4 + sizeof_mat4x4} \<and>
   (vao sc0 = 0 \<longrightarrow> Init getRandom env g nC nL sc0 = Inr (sc1, icmds, g1) \<longrightarrow>
      filter (binds_slot 0) icmds =
        [glBindBufferBase GL_UNIFORM_BUFFER 0 (transformBlockUBO sc1)]) \<and>
   (Draw sc cam renderMode carmackReverse instanceData = Inr (cmds, buf) \<longrightarrow>
      filter (binds_slot 0) cmds = [])"
proof -
  have sz: "sizeof_mat3x4 = 48" "sizeof_mat4x4 = 64"
    by (simp_all add: sizeof_mat3x4_def sizeof_mat4x4_def sizeof_float_def)
  have u: "UpdateTransformBlock sc cam =
     [glBindBuffer GL_UNIFORM_BUFFER (transformBlockUBO sc),
      glBufferSubData GL_UNIFORM_BUFFER 0 48 (Transpose (WorldToView cam)),
      glBufferSubData GL_UNIFORM_BUFFER 48 64 (Projection cam),
      glBindBuffer GL_UNIFORM_BUFFER 0]"
    by (simp add: UpdateTransformBlock_def sz)
  have disj: "{0 ..< sizeof_mat3x4} \<inter> {sizeof_mat3x4 ..< sizeof_mat3x4 + sizeof_mat4x4} = {}"
    by auto
  have adj: "{0 ..< sizeof_mat3x4} \<union> {sizeof_mat3x4 ..< sizeof_mat3x4 + sizeof_mat4x4} =
     {0 ..< sizeof_mat3x4 + sizeof_mat4x4}"
    by auto
  have init: "filter (binds_slot 0) icmds =
        [glBindBufferBase GL_UNIFORM_BUFFER 0 (transformBlockUBO sc1)]"
    if "vao sc0 = 0" "Init getRandom env g nC nL sc0 = Inr (sc1, icmds, g1)"
    using Init_Inr(1,2) [OF that(2,1)] by (simp add: Init_buffers_def)
  have draw: "filter (binds_slot 0) cmds = []"
    if d: "Draw sc cam renderMode carmackReverse instanceData = Inr (cmds, buf)"
  proof -
    from Draw_Inr [OF d] obtain upload dp ll where
      up: "UpdateInstanceData sc instanceData = Inr (upload, buf)" and
      dp: "depthPass sc cam = Inr dp" and
      ll: "light_loop sc cam carmackReverse 0 = Inr ll" and
      cmds: "cmds = UpdateTransformBlock sc cam @ upload @ frame_setup renderMode @
              [glColorMask False False False False] @ dp @
              [glDepthMask False] @ ll @ [glColorMask True True True True]"
      by blast
    show ?thesis
      unfolding cmds
      by (simp add: binds_slot_depthPass [OF dp] binds_slot_light_loop [OF ll]
            UpdateInstanceData_Inr(3) [OF up] UpdateTransformBlock_def frame_setup_def)
  qed
  from u sz disj adj init draw show ?thesis
    by blast
qed

theorem TransformBlock_layout_witness:
  "\<exists>sc1 icmds g1 cmds buf.
     Init getRandom_mid env1 0 5 1 fresh_scene = Inr (sc1, icmds, g1) \<and>
     filter (binds_slot 0) icmds = [glBindBufferBase GL_UNIFORM_BUFFER 0 (transformBlockUBO sc1)] \<and>
     Draw scene1 camera1 settings1 True staging1 = Inr (cmds, buf) \<and>
     filter (binds_slot 0) cmds = []"
proof -
  from Init_fresh_completes obtain sc1 icmds g1 where
    i: "Init getRandom_mid env1 0 5 1 fresh_scene = Inr (sc1, icmds, g1)"
    by blast
  from Draw_scene1_completes obtain cmds buf where
    d: "Draw scene1 camera1 settings1 True staging1 = Inr (cmds, buf)"
    by blast
  have v: "vao fresh_scene = 0"
    by (simp add: fresh_scene_def)
  note t = TransformBlock_layout [of scene1 camera1 fresh_scene getRandom_mid env1 0 5 1 sc1 icmds g1
      settings1 True staging1 cmds buf]
  from t v i d show ?thesis
    by blast
qed

section \<open>State during the shadow-volume pass\<close>

text \<open>
  C6. The commands of a frame rendered by \<open>Scene::Draw\<close> end with one iteration per light
  and the final colour mask, and the iteration of light \<open>i\<close> runs the shadow-volume pass
  of that light after its first three commands. In the state the frame has reached there,
  the pass issues one draw call, the instanced draw of the adjacency mesh, with the
  shadow-volume program, the stencil function \<open>GL_ALWAYS\<close>, face culling disabled and
  colour and depth writes disabled; this draw call is one of the draw calls of the frame,
  and the pass leaves face culling enabled. The frame has as many draw calls with the
  shadow-volume program as lights, and each of them is issued in such a state.
\<close>

theorem shadowPass_state:
  assumes "Draw sc cam renderMode carmackReverse instanceData = Inr (cmds, buf)"
  shows "\<exists>pre its.
     cmds = pre @ concat its @ [glColorMask True True True True] \<and>
     length its = nat (numLights sc) \<and>
     (\<forall>i < nat (numLights sc). \<exists>sv rest.
        shadowPass sc cam carmackReverse (position (lights sc ! i)) (color (lights sc ! i)) = Inr sv \<and>
        its ! i = [glClear [GL_STENCIL_BUFFER_BIT], glEnable GL_STENCIL_TEST,
                   glColorMask False False False False] @ sv @ rest \<and>
        map fst (draw_calls sv
          (run (pre @ concat (take i its) @
                [glClear [GL_STENCIL_BUFFER_BIT], glEnable GL_STENCIL_TEST,
                 glColorMask False False False False]) s)) =
          [glDrawElementsInstanced GL_TRIANGLES_ADJACENCY (IBOSize (the (cubeAdjacency sc)))
             (numCubes sc)] \<and>
        (\<forall>(c, d) \<in> set (draw_calls sv
            (run (pre @ concat (take i its) @
                  [glClear [GL_STENCIL_BUFFER_BIT], glEnable GL_STENCIL_TEST,
                   glColorMask False False False False]) s)).
           current_program d = Some InstancedShadowVolume \<and>
           stencil_func d = (GL_ALWAYS, 0, 255) \<and> \<not> cull_face_enabled d \<and>
           color_mask d = (False, False, False, False) \<and> \<not> depth_mask d) \<and>
        set (draw_calls sv
            (run (pre @ concat (take i its) @
                  [glClear [GL_STENCIL_BUFFER_BIT], glEnable GL_STENCIL_TEST,
                   glColorMask False False False False]) s)) \<subseteq> set (draw_calls cmds s) \<and>
        cull_face_enabled (run sv
            (run (pre @ concat (take i its) @
                  [glClear [GL_STENCIL_BUFFER_BIT], glEnable GL_STENCIL_TEST,
                   glColorMask False False False False]) s))) \<and>
     (\<forall>(c, d) \<in> set (draw_calls cmds s).
        current_program d = Some InstancedShadowVolume \<longrightarrow>
        stencil_func d = (GL_ALWAYS, 0, 255) \<and> \<not> cull_face_enabled d \<and>
        color_mask d = (False, False, False, False) \<and> \<not> depth_mask d) \<and>
     length (filter (\<lambda>(c, d). current_program d = Some InstancedShadowVolume)
        (draw_calls cmds s)) = nat (numLights sc)"
proof -
  from Draw_Inr [OF assms] obtain upload dp ll where
    up: "UpdateInstanceData sc instanceData = Inr (upload, buf)" and
    dp: "depthPass sc cam = Inr dp" and
    ll: "light_loop sc cam carmackReverse 0 = Inr ll" and
    cmds: "cmds = UpdateTransformBlock sc cam @ upload @ frame_setup renderMode @
              [glColorMask False False False False] @ dp @
              [glDepthMask False] @ ll @ [glColorMask True True True True]"
    by blast
  from light_loop_Inr [OF ll] obtain its where
    len: "length its = nat (numLights sc)" and c: "ll = concat its" and
    its: "\<forall>k < length its. k < length (lights sc) \<and>
           light_iteration sc cam carmackReverse (lights sc ! k) = Inr (its ! k)"
    by auto
  define pre0 where "pre0 = UpdateTransformBlock sc cam @ upload @ frame_setup renderMode @
              [glColorMask False False False False]"
  define pre where "pre = pre0 @ dp @ [glDepthMask False]"
  define head where "head = [glClear [GL_STENCIL_BUFFER_BIT], glEnable GL_STENCIL_TEST,
                   glColorMask False False False False]"
  define s0 where "s0 = run pre0 s"
  define s1 where "s1 = run pre s"
  have split: "cmds = pre @ concat its @ [glColorMask True True True True]"
    by (simp add: cmds pre_def pre0_def c)
  have d_pre0: "draw_calls pre0 s = []"
    unfolding pre0_def by (rule frame_prefix_state(1) [OF up])
  have d_dp: "\<forall>d \<in> set (map snd (draw_calls dp s0)). current_program d \<noteq> Some InstancedShadowVolume"
    unfolding depthPass_states(1) [OF dp] by simp
  have s1_eq: "s1 = run (dp @ [glDepthMask False]) s0"
    by (simp add: s1_def s0_def pre_def run_append)
  have dm: "\<not> depth_mask s1"
    unfolding s1_eq by (simp add: run_append)
  have all_it: "\<forall>it \<in> set its. \<exists>l. light_iteration sc cam carmackReverse l = Inr it"
    using its by (metis in_set_conv_nth)
  have d_pre: "draw_calls pre s = draw_calls dp s0"
    by (simp add: pre_def draw_calls_append d_pre0 s0_def)
  have dc: "draw_calls cmds s = draw_calls dp s0 @ draw_calls (concat its) s1"
    unfolding split by (simp add: draw_calls_append d_pre s1_def)
  from light_iterations_draws [OF all_it dm] have
    loop: "\<forall>(c, d) \<in> set (draw_calls (concat its) s1).
            current_program d = Some InstancedShadowVolume \<longrightarrow>
            stencil_func d = (GL_ALWAYS, 0, 255) \<and> \<not> cull_face_enabled d \<and>
            color_mask d = (False, False, False, False) \<and> \<not> depth_mask d"
    by blast
  have every: "\<forall>(c, d) \<in> set (draw_calls cmds s).
        current_program d = Some InstancedShadowVolume \<longrightarrow>
        stencil_func d = (GL_ALWAYS, 0, 255) \<and> \<not> cull_face_enabled d \<and>
        color_mask d = (False, False, False, False) \<and> \<not> depth_mask d"
    unfolding dc using d_dp loop by auto
  have none_dp: "filter (\<lambda>(c, d). current_program d = Some InstancedShadowVolume)
        (draw_calls dp s0) = []"
    using d_dp by (intro filter_False) auto
  have count: "length (filter (\<lambda>(c, d). current_program d = Some InstancedShadowVolume)
        (draw_calls cmds s)) = nat (numLights sc)"
    unfolding dc by (simp add: none_dp light_iterations_shadow_count [OF all_it] len)
  have each: "\<exists>sv rest.
        shadowPass sc cam carmackReverse (position (lights sc ! i)) (color (lights sc ! i)) = Inr sv \<and>
        its ! i = head @ sv @ rest \<and>
        map fst (draw_calls sv (run (pre @ concat (take i its) @ head) s)) =
          [glDrawElementsInstanced GL_TRIANGLES_ADJACENCY (IBOSize (the (cubeAdjacency sc)))
             (numCubes sc)] \<and>
        (\<forall>(c, d) \<in> set (draw_calls sv (run (pre @ concat (take i its) @ head) s)).
           current_program d = Some InstancedShadowVolume \<and>
           stencil_func d = (GL_ALWAYS, 0, 255) \<and> \<not> cull_face_enabled d \<and>
           color_mask d = (False, False, False, False) \<and> \<not> depth_mask d) \<and>
        set (draw_calls sv (run (pre @ concat (take i its) @ head) s)) \<subseteq> set (draw_calls cmds s) \<and>
        cull_face_enabled (run sv (run (pre @ concat (take i its) @ head) s))"
    if i: "i < nat (numLights sc)" for i
  proof -
    from its i len have "light_iteration sc cam carmackReverse (lights sc ! i) = Inr (its ! i)"
      by simp
    from light_iteration_Inr [OF this] obtain sv dl al where
      sv: "shadowPass sc cam carmackReverse (position (lights sc ! i)) (color (lights sc ! i)) = Inr sv" and
      dl: "lightPass sc cam DirectLight (position (lights sc ! i)) (color (lights sc ! i)) = Inr dl" and
      al: "lightPass sc cam AmbientLight (position (lights sc ! i)) (color (lights sc ! i)) = Inr al" and
      it: "its ! i = head @ sv @
          [glColorMask True True True True] @ dl @ [glDisable GL_STENCIL_TEST] @ al"
      unfolding head_def by blast
    define si where "si = run (concat (take i its)) s1"
    define st where "st = run head si"
    have "\<forall>it \<in> set (take i its). \<exists>l. light_iteration sc cam carmackReverse l = Inr it"
      using all_it by (meson in_set_takeD)
    from light_iterations_draws [OF this dm] have dmi: "\<not> depth_mask si"
      unfolding si_def by blast
    have st_eq: "run (pre @ concat (take i its) @ head) s = st"
      by (simp add: st_def si_def s1_def run_append)
    define s2 where "s2 = run (sv @ [glColorMask True True True True]) st"
    define s3 where "s3 = run (dl @ [glDisable GL_STENCIL_TEST]) s2"
    note facts = light_iteration_states [OF sv dl al st_def [unfolded head_def] s2_def s3_def]
    have props: "\<forall>(c, d) \<in> set (draw_calls sv st).
           current_program d = Some InstancedShadowVolume \<and>
           stencil_func d = (GL_ALWAYS, 0, 255) \<and> \<not> cull_face_enabled d \<and>
           color_mask d = (False, False, False, False) \<and> \<not> depth_mask d"
      using facts(1) dmi by auto
    have whole: "its = take i its @ (its ! i) # drop (Suc i) its"
      using i len by (simp add: id_take_nth_drop)
    have "concat its = concat (take i its) @ its ! i @ concat (drop (Suc i) its)"
      by (subst whole) simp
    then have shape: "cmds = (pre @ concat (take i its) @ head) @ sv @
        (([glColorMask True True True True] @ dl @ [glDisable GL_STENCIL_TEST] @ al) @
         concat (drop (Suc i) its) @ [glColorMask True True True True])"
      by (simp add: split it)
    define before where "before = pre @ concat (take i its) @ head"
    define after where "after = ([glColorMask True True True True] @ dl @
         [glDisable GL_STENCIL_TEST] @ al) @
         concat (drop (Suc i) its) @ [glColorMask True True True True]"
    have "draw_calls cmds s = draw_calls before s @ draw_calls sv st @
        draw_calls after (run sv st)"
      unfolding shape before_def [symmetric] after_def [symmetric]
      by (simp only: draw_calls_append run_append st_eq [unfolded before_def [symmetric]])
    then have sub: "set (draw_calls sv st) \<subseteq> set (draw_calls cmds s)"
      by auto
    show ?thesis
      unfolding st_eq
      apply (rule exI [of _ sv])
      apply (rule exI [of _ "[glColorMask True True True True] @ dl @ [glDisable GL_STENCIL_TEST] @ al"])
      apply (intro conjI)
           apply (rule sv)
          apply (rule it)
         apply (rule shadowPass_draw [OF sv])
        apply (rule props)
       apply (rule sub)
      apply (rule facts(3))
      done
  qed
  show ?thesis
    apply (rule exI [of _ pre], rule exI [of _ its])
    apply (intro conjI)
        apply (rule split)
       apply (rule len)
      apply (fold head_def)
      apply (intro allI impI)
      apply (erule each)
     apply (rule every)
    apply (rule count)
    done
qed

text \<open>
  The frame of the one-light scene from the initial state has one such draw call.
\<close>

theorem shadowPass_state_witness:
  "\<exists>cmds buf pre its sv rest.
     Draw scene1 camera1 settings1 False staging1 = Inr (cmds, buf) \<and>
     cmds = pre @ concat its @ [glColorMask True True True True] \<and>
     length its = 1 \<and>
     shadowPass scene1 camera1 False (position (lights scene1 ! 0))
       (color (lights scene1 ! 0)) = Inr sv \<and>
     its ! 0 = [glClear [GL_STENCIL_BUFFER_BIT], glEnable GL_STENCIL_TEST,
                glColorMask False False False False] @ sv @ rest \<and>
     map fst (draw_calls sv
       (run (pre @ concat (take 0 its) @
             [glClear [GL_STENCIL_BUFFER_BIT], glEnable GL_STENCIL_TEST,
              glColorMask False False False False]) gl_initial)) =
       [glDrawElementsInstanced GL_TRIANGLES_ADJACENCY
          (IBOSize (the (cubeAdjacency scene1))) (numCubes scene1)] \<and>
     (\<forall>(c, d) \<in> set (draw_calls sv
         (run (pre @ concat (take 0 its) @
               [glClear [GL_STENCIL_BUFFER_BIT], glEnable GL_STENCIL_TEST,
                glColorMask False False False False]) gl_initial)).
        current_program d = Some InstancedShadowVolume \<and>
        stencil_func d = (GL_ALWAYS, 0, 255) \<and> \<not> cull_face_enabled d \<and>
        color_mask d = (False, False, False, False) \<and> \<not> depth_mask d) \<and>
     set (draw_calls sv
         (run (pre @ concat (take 0 its) @
               [glClear [GL_STENCIL_BUFFER_BIT], glEnable GL_STENCIL_TEST,
                glColorMask False False False False]) gl_initial))
       \<subseteq> set (draw_calls cmds gl_initial) \<and>
     cull_face_enabled (run sv
         (run (pre @ concat (take 0 its) @
               [glClear [GL_STENCIL_BUFFER_BIT], glEnable GL_STENCIL_TEST,
                glColorMask False False False False]) gl_initial)) \<and>
     (\<forall>(c, d) \<in> set (draw_calls cmds gl_initial).
        current_program d = Some InstancedShadowVolume \<longrightarrow>
        stencil_func d = (GL_ALWAYS, 0, 255) \<and> \<not> cull_face_enabled d \<and>
        color_mask d = (False, False, False, False) \<and> \<not> depth_mask d) \<and>
     length (filter (\<lambda>(c, d). current_program d = Some InstancedShadowVolume)
        (draw_calls cmds gl_initial)) = 1"
proof -
  from Draw_scene1_completes obtain cmds buf where
    d: "Draw scene1 camera1 settings1 False staging1 = Inr (cmds, buf)"
    by blast
  have n: "nat (numLights scene1) = 1"
    by (simp add: scene1_def)
  from shadowPass_state [OF d, of gl_initial] show ?thesis
    unfolding n
    apply (elim exE conjE)
    apply (erule allE [of _ 0])
    apply (erule impE)
     apply simp
    apply (elim exE conjE)
    apply (intro exI conjI)
             apply (rule d)
            apply assumption+
    done
qed

section \<open>Render-pass flags\<close>

text \<open>
  C7. \<open>LightPass\<close> is exactly \<open>DirectLight | AmbientLight\<close>, and \<open>UpdateProgramData\<close>
  issues the light-pass-only uniforms (view position, light colour) if and only if the
  render pass has the \<open>DirectLight\<close> or the \<open>AmbientLight\<close> flag, whatever its other bits.
\<close>

theorem LightPass_flags:
  "LightPass = DirectLight OR AmbientLight \<and>
   ((\<exists>c \<in> set (UpdateProgramData program renderPass cam lightPosition lightColor).
       is_light_pass_uniform c)
    \<longleftrightarrow> (renderPass AND DirectLight \<noteq> 0 \<or> renderPass AND AmbientLight \<noteq> 0)) \<and>
   (filter is_light_pass_uniform (UpdateProgramData program renderPass cam lightPosition lightColor) =
      (if renderPass AND DirectLight \<noteq> 0 \<or> renderPass AND AmbientLight \<noteq> 0
       then [glUniform4fv_column (UniformLocation program ''viewPosWS'') (ViewToWorld cam) 3,
             glUniform4f (UniformLocation program ''lightColor'')
               (col_r lightColor) (col_g lightColor) (col_b lightColor)
               (if renderPass AND AmbientLight \<noteq> 0 then col_a lightColor else Finite 0)]
       else []))"
proof -
  have L: "LightPass = DirectLight OR AmbientLight"
    by (simp add: LightPass_def DirectLight_def AmbientLight_def)
  have E: "renderPass AND LightPass \<noteq> 0 \<longleftrightarrow>
      (renderPass AND DirectLight \<noteq> 0 \<or> renderPass AND AmbientLight \<noteq> 0)"
    unfolding L by (simp add: bit.conj_disj_distrib or_eq_0_iff)
  have B: "(\<exists>c \<in> set (UpdateProgramData program renderPass cam lightPosition lightColor).
       is_light_pass_uniform c) \<longleftrightarrow> renderPass AND LightPass \<noteq> 0"
    by (cases "renderPass AND (ShadowVolume OR LightPass) = 0";
        cases "renderPass AND LightPass = 0") (simp_all add: UpdateProgramData_def)
  have F: "filter is_light_pass_uniform
       (UpdateProgramData program renderPass cam lightPosition lightColor) =
      (if renderPass AND LightPass \<noteq> 0
       then [glUniform4fv_column (UniformLocation program ''viewPosWS'') (ViewToWorld cam) 3,
             glUniform4f (UniformLocation program ''lightColor'')
               (col_r lightColor) (col_g lightColor) (col_b lightColor)
               (if renderPass AND AmbientLight \<noteq> 0 then col_a lightColor else Finite 0)]
       else [])"
    by (cases "renderPass AND (ShadowVolume OR LightPass) = 0";
        cases "renderPass AND LightPass = 0") (simp_all add: UpdateProgramData_def)
  show ?thesis
    unfolding B F E using L by simp
qed

theorem LightPass_flags_witness:
  "filter is_light_pass_uniform
     (UpdateProgramData Default DirectLight
        \<lparr>WorldToView = Opaque 0, ViewToWorld = Opaque 1, Projection = Opaque 2\<rparr>
        (Vec3 1 2 3) (Color4 4 5 6 (Finite 7))) =
     [glUniform4fv_column (UniformLocation Default ''viewPosWS'') (Opaque 1) 3,
      glUniform4f (UniformLocation Default ''lightColor'') 4 5 6 (Finite 0)] \<and>
   filter is_light_pass_uniform
     (UpdateProgramData Default (DepthPass OR ShadowVolume)
        \<lparr>WorldToView = Opaque 0, ViewToWorld = Opaque 1, Projection = Opaque 2\<rparr>
        (Vec3 1 2 3) (Color4 4 5 6 (Finite 7))) = []"
  using LightPass_flags [of Default DirectLight
          "\<lparr>WorldToView = Opaque 0, ViewToWorld = Opaque 1, Projection = Opaque 2\<rparr>"
          "Vec3 1 2 3" "Color4 4 5 6 (Finite 7)"]
        LightPass_flags [of Default "DepthPass OR ShadowVolume"
          "\<lparr>WorldToView = Opaque 0, ViewToWorld = Opaque 1, Projection = Opaque 2\<rparr>"
          "Vec3 1 2 3" "Color4 4 5 6 (Finite 7)"]
  by (simp add: DirectLight_def AmbientLight_def DepthPass_def ShadowVolume_def)

section \<open>Initialisation\<close>

text \<open>
  C8, as the code has it. Initialising a fresh scene with \<open>numCubes = 5\<close> and
  \<open>numLights = 1\<close> completes and creates exactly one light, the light at \<open>(-3, 3, 0)\<close> with
  colour \<open>(10, 10, 10)\<close>, ambient intensity \<open>0.001\<close> and movement \<open>(0, 1, 0, 0)\<close>, and no
  random light; the first cube is at \<open>(0, 0.5, 0)\<close> and four further cubes follow, each
  with \<open>x\<close> in \<open>[-5, 5]\<close>, \<open>y\<close> in \<open>[1, 5]\<close> and \<open>z\<close> in \<open>[-5, 5]\<close>, given that
  \<open>getRandom\<close> returns a value between its bounds.
\<close>

theorem Init_5_cubes_1_light:
  assumes "\<And>g lo hi. lo \<le> hi \<Longrightarrow> lo \<le> fst (getRandom g lo hi) \<and> fst (getRandom g lo hi) \<le> hi"
    and "vao sc = 0" and "cubePositions sc = []" and "lights sc = []"
  shows "\<exists>sc' cmds g'.
     Init getRandom env g 5 1 sc = Inr (sc', cmds, g') \<and>
     numCubes sc' = 5 \<and> numLights sc' = 1 \<and>
     lights sc' = [\<lparr>position = Vec3 (- 3) 3 0, color = Color4 10 10 10 (Finite (1 / 1000)),
                    movement = Vec4 0 1 0 0\<rparr>] \<and>
     length (cubePositions sc') = 5 \<and>
     cubePositions sc' ! 0 = Vec3 0 0.5 0 \<and>
     (\<forall>k \<in> {1 ..< 5}.
        - 5 \<le> vec3_x (cubePositions sc' ! k) \<and> vec3_x (cubePositions sc' ! k) \<le> 5 \<and>
        1 \<le> vec3_y (cubePositions sc' ! k) \<and> vec3_y (cubePositions sc' ! k) \<le> 5 \<and>
        - 5 \<le> vec3_z (cubePositions sc' ! k) \<and> vec3_z (cubePositions sc' ! k) \<le> 5)"
proof -
  obtain cubes g1 where gc: "gen_cubes getRandom 5 1 g [Vec3 0 0.5 0] = (cubes, g1)"
    by (cases "gen_cubes getRandom 5 1 g [Vec3 0 0.5 0]")
  from gen_cubes_spec [OF assms(1) gc] obtain new where
    new: "cubes = [Vec3 0 0.5 0] @ new" "length new = 4"
      "\<forall>p \<in> set new. - 5 \<le> vec3_x p \<and> vec3_x p \<le> 5 \<and> 1 \<le> vec3_y p \<and> vec3_y p \<le> 5 \<and>
                      - 5 \<le> vec3_z p \<and> vec3_z p \<le> 5"
    by auto
  have gl: "gen_lights getRandom 1 a 1 g1 ls = Inr (ls, g1)" for a ls
    by (subst gen_lights.simps) simp
  have amb: "ambientIntensity_of 1 = Finite (1 / 1000)"
    by (simp add: ambientIntensity_of_def)
  define sc' where "sc' = sc\<lparr>numCubes := 5, numLights := 1,
        quad := Some (created_quad env), cube := Some (created_cube env),
        cubeAdjacency := Some (created_cubeAdjacency env),
        vao := generated_vao env, instancingBuffer := generated_instancingBuffer env,
        transformBlockUBO := generated_transformBlockUBO env,
        cubePositions := cubes,
        lights := [\<lparr>position = Vec3 (- 3) 3 0, color = Color4 10 10 10 (Finite (1 / 1000)),
                    movement = Vec4 0 1 0 0\<rparr>],
        loadedTextures := created_textures env\<rparr>"
  have i: "Init getRandom env g 5 1 sc = Inr (sc', Init_buffers env, g1)"
    using assms(2-4) gc
      gl [of "Finite (1 / 1000)" "[\<lparr>position = Vec3 (- 3) 3 0,
             color = Color4 10 10 10 (Finite (1 / 1000)), movement = Vec4 0 1 0 0\<rparr>]"]
    by (simp add: Init_def amb sc'_def)
  have box: "- 5 \<le> vec3_x (cubePositions sc' ! k) \<and> vec3_x (cubePositions sc' ! k) \<le> 5 \<and>
        1 \<le> vec3_y (cubePositions sc' ! k) \<and> vec3_y (cubePositions sc' ! k) \<le> 5 \<and>
        - 5 \<le> vec3_z (cubePositions sc' ! k) \<and> vec3_z (cubePositions sc' ! k) \<le> 5"
    if "k \<in> {1 ..< 5}" for k
  proof -
    from that obtain j where j: "k = Suc j" "j < 4"
      by (cases k) auto
    then have "cubePositions sc' ! k = new ! j"
      by (simp add: sc'_def new(1))
    moreover from j new(2) have "new ! j \<in> set new" by simp
    ultimately show ?thesis using new(3) by simp
  qed
  have "numCubes sc' = 5" "numLights sc' = 1"
    "lights sc' = [\<lparr>position = Vec3 (- 3) 3 0, color = Color4 10 10 10 (Finite (1 / 1000)),
                    movement = Vec4 0 1 0 0\<rparr>]"
    "length (cubePositions sc') = 5" "cubePositions sc' ! 0 = Vec3 0 0.5 0"
    by (simp_all add: sc'_def new(1,2))
  with i box show ?thesis
    by blast
qed

theorem Init_5_cubes_1_light_witness:
  "\<exists>sc' cmds g'.
     Init getRandom_mid env1 0 5 1 fresh_scene = Inr (sc', cmds, g') \<and>
     lights sc' = [\<lparr>position = Vec3 (- 3) 3 0, color = Color4 10 10 10 (Finite (1 / 1000)),
                    movement = Vec4 0 1 0 0\<rparr>] \<and>
     length (cubePositions sc') = 5 \<and>
     cubePositions sc' ! 0 = Vec3 0 0.5 0 \<and>
     (\<forall>k \<in> {1 ..< 5}.
        - 5 \<le> vec3_x (cubePositions sc' ! k) \<and> vec3_x (cubePositions sc' ! k) \<le> 5 \<and>
        1 \<le> vec3_y (cubePositions sc' ! k) \<and> vec3_y (cubePositions sc' ! k) \<le> 5 \<and>
        - 5 \<le> vec3_z (cubePositions sc' ! k) \<and> vec3_z (cubePositions sc' ! k) \<le> 5)"
proof -
  have "\<exists>sc' cmds g'.
     Init getRandom_mid env1 0 5 1 fresh_scene = Inr (sc', cmds, g') \<and>
     numCubes sc' = 5 \<and> numLights sc' = 1 \<and>
     lights sc' = [\<lparr>position = Vec3 (- 3) 3 0, color = Color4 10 10 10 (Finite (1 / 1000)),
                    movement = Vec4 0 1 0 0\<rparr>] \<and>
     length (cubePositions sc') = 5 \<and>
     cubePositions sc' ! 0 = Vec3 0 0.5 0 \<and>
     (\<forall>k \<in> {1 ..< 5}.
        - 5 \<le> vec3_x (cubePositions sc' ! k) \<and> vec3_x (cubePositions sc' ! k) \<le> 5 \<and>
        1 \<le> vec3_y (cubePositions sc' ! k) \<and> vec3_y (cubePositions sc' ! k) \<le> 5 \<and>
        - 5 \<le> vec3_z (cubePositions sc' ! k) \<and> vec3_z (cubePositions sc' ! k) \<le> 5)"
    by (rule Init_5_cubes_1_light [of getRandom_mid])
       (simp_all add: getRandom_mid_def fresh_scene_def)
  then show ?thesis
    by (elim exE conjE, intro exI conjI) assumption+
qed

theorem Init_5_cubes_1_light_counterexample:
  "\<not> isl (Init getRandom_mid env1 0 5 1 fresh_scene) \<and>
   length (lights (fst (projr (Init getRandom_mid env1 0 5 1 fresh_scene)))) = 1 \<and>
   length (lights (fst (projr (Init getRandom_mid env1 0 5 1 fresh_scene)))) \<noteq> 1 + 4"
  by (simp add: Init_def fresh_scene_def gen_cubes.simps gen_lights.simps getRandom_mid_def)

section \<open>A frame without lights\<close>

text \<open>
  C9. A frame of \<open>Scene::Draw\<close> with zero lights configured consists of the transform and
  instance uploads, the state setup, the depth pre-pass and the final masks. Its only draw
  calls are those of the depth pre-pass, the three background quads and the instanced
  cubes, issued with colour writes disabled and depth writes enabled; the light loop
  issues nothing (no stencil clear, no stencil test), and the frame ends with the colour
  mask enabled on all four channels.
\<close>

theorem Draw_no_lights:
  assumes "Draw sc cam renderMode carmackReverse instanceData = Inr (cmds, buf)"
    and "numLights sc = 0"
  shows "\<exists>upload dp.
     UpdateInstanceData sc instanceData = Inr (upload, buf) \<and>
     depthPass sc cam = Inr dp \<and>
     light_loop sc cam carmackReverse 0 = Inr [] \<and>
     cmds = UpdateTransformBlock sc cam @ upload @ frame_setup renderMode @
            [glColorMask False False False False] @ dp @
            [glDepthMask False, glColorMask True True True True] \<and>
     map fst (draw_calls cmds s) =
       [glDrawElements GL_TRIANGLES (IBOSize (the (quad sc))),
        glDrawElements GL_TRIANGLES (IBOSize (the (quad sc))),
        glDrawElements GL_TRIANGLES (IBOSize (the (quad sc))),
        glDrawElementsInstanced GL_TRIANGLES (IBOSize (the (cube sc))) (numCubes sc)] \<and>
     (\<forall>(c, d) \<in> set (draw_calls cmds s).
        color_mask d = (False, False, False, False) \<and> depth_mask d \<and> depth_test_enabled d) \<and>
     glClear [GL_STENCIL_BUFFER_BIT] \<notin> set cmds \<and>
     glEnable GL_STENCIL_TEST \<notin> set cmds \<and>
     color_mask (run cmds s) = (True, True, True, True)"
proof -
  from Draw_Inr [OF assms(1)] obtain upload dp ll where
    up: "UpdateInstanceData sc instanceData = Inr (upload, buf)" and
    dp: "depthPass sc cam = Inr dp" and
    ll: "light_loop sc cam carmackReverse 0 = Inr ll" and
    cmds: "cmds = UpdateTransformBlock sc cam @ upload @ frame_setup renderMode @
              [glColorMask False False False False] @ dp @
              [glDepthMask False] @ ll @ [glColorMask True True True True]"
    by blast
  have nil: "light_loop sc cam carmackReverse 0 = Inr []"
    using assms(2) by (simp add: light_loop.simps [of sc cam carmackReverse 0])
  with ll have "ll = []" by simp
  define pre where "pre = UpdateTransformBlock sc cam @ upload @ frame_setup renderMode @
            [glColorMask False False False False]"
  from cmds \<open>ll = []\<close> have c: "cmds = pre @ dp @ [glDepthMask False, glColorMask True True True True]"
    by (simp add: pre_def)
  define s0 where "s0 = run pre s"
  have s0: "color_mask s0 = (False, False, False, False)" "depth_mask s0" "depth_test_enabled s0"
    unfolding s0_def pre_def frame_prefix_state(2) [OF up] by simp_all
  have d_pre: "draw_calls pre s = []"
    unfolding pre_def by (rule frame_prefix_state(1) [OF up])
  have dc: "draw_calls cmds s = draw_calls dp s0"
    unfolding c s0_def by (simp add: draw_calls_append d_pre)
  have draws: "map fst (draw_calls cmds s) =
       [glDrawElements GL_TRIANGLES (IBOSize (the (quad sc))),
        glDrawElements GL_TRIANGLES (IBOSize (the (quad sc))),
        glDrawElements GL_TRIANGLES (IBOSize (the (quad sc))),
        glDrawElementsInstanced GL_TRIANGLES (IBOSize (the (cube sc))) (numCubes sc)]"
    unfolding dc by (rule depthPass_states(2) [OF dp])
  have states: "\<forall>(c, d) \<in> set (draw_calls cmds s).
        color_mask d = (False, False, False, False) \<and> depth_mask d \<and> depth_test_enabled d"
    unfolding dc Ball_draw_calls depthPass_states(1) [OF dp] by (simp add: s0)
  have no_stencil: "glClear [GL_STENCIL_BUFFER_BIT] \<notin> set cmds" "glEnable GL_STENCIL_TEST \<notin> set cmds"
    unfolding c pre_def depthPass_cmds [OF dp] UpdateInstanceData_Inr(3) [OF up]
    by (simp_all add: UpdateTransformBlock_def frame_setup_def)
  have final: "color_mask (run cmds s) = (True, True, True, True)"
    unfolding c by (simp add: run_append)
  have c': "cmds = UpdateTransformBlock sc cam @ upload @ frame_setup renderMode @
            [glColorMask False False False False] @ dp @
            [glDepthMask False, glColorMask True True True True]"
    by (simp add: c pre_def)
  show ?thesis
    apply (rule exI [of _ upload], rule exI [of _ dp])
    apply (intro conjI)
            apply (rule up)
           apply (rule dp)
          apply (rule nil)
         apply (rule c')
        apply (rule draws)
       apply (rule states)
      apply (rule no_stencil(1))
     apply (rule no_stencil(2))
    apply (rule final)
    done
qed

theorem Draw_no_lights_witness:
  "\<exists>cmds buf.
     Draw (scene1\<lparr>numLights := 0\<rparr>) camera1 settings1 True staging1 = Inr (cmds, buf) \<and>
     map fst (draw_calls cmds gl_initial) =
       [glDrawElements GL_TRIANGLES 6, glDrawElements GL_TRIANGLES 6,
        glDrawElements GL_TRIANGLES 6, glDrawElementsInstanced GL_TRIANGLES 36 1] \<and>
     (\<forall>(c, d) \<in> set (draw_calls cmds gl_initial).
        color_mask d = (False, False, False, False) \<and> depth_mask d \<and> depth_test_enabled d) \<and>
     glClear [GL_STENCIL_BUFFER_BIT] \<notin> set cmds \<and>
     glEnable GL_STENCIL_TEST \<notin> set cmds \<and>
     color_mask (run cmds gl_initial) = (True, True, True, True)"
proof -
  have "\<exists>cmds buf. Draw (scene1\<lparr>numLights := 0\<rparr>) camera1 settings1 True staging1 = Inr (cmds, buf)"
    by (rule Draw_completes [of _ "\<lparr>VAO = 2, IBOSize = 6\<rparr>" "\<lparr>VAO = 3, IBOSize = 36\<rparr>"
          "\<lparr>VAO = 4, IBOSize = 72\<rparr>"])
       (simp_all add: scene1_def staging1_def MAX_INSTANCES_def)
  then obtain cmds buf where
    d: "Draw (scene1\<lparr>numLights := 0\<rparr>) camera1 settings1 True staging1 = Inr (cmds, buf)"
    by blast
  have z: "numLights (scene1\<lparr>numLights := 0\<rparr>) = 0"
    by simp
  have m: "IBOSize (the (quad (scene1\<lparr>numLights := 0\<rparr>))) = 6"
    "IBOSize (the (cube (scene1\<lparr>numLights := 0\<rparr>))) = 36"
    "numCubes (scene1\<lparr>numLights := 0\<rparr>) = 1"
    by (simp_all add: scene1_def)
  from Draw_no_lights [OF d z, of gl_initial] d show ?thesis
    unfolding m by (elim exE conjE, intro exI conjI) assumption+
qed

section \<open>Repeated initialisation\<close>

text \<open>
  C10. Once a scene is initialised (its generic VAO handle is not 0), a further call of
  \<open>Scene::Init\<close>, with any arguments, returns at once: it issues no command, draws no
  random number and leaves every field of the scene as it is. This holds for the
  shadow-volume scene and for the spotlight scene, and in particular for the scene that a
  first call, which generated a nonzero VAO handle, has returned.
\<close>

theorem Init_idempotent:
  "(vao sc \<noteq> 0 \<longrightarrow> Init getRandom env g nC nL sc = Inr (sc, [], g)) \<and>
   (sp_vao ssc \<noteq> 0 \<longrightarrow> Init_spot getRandom env g nC nL ssc = Inr (ssc, [], g)) \<and>
   (vao sc0 = 0 \<longrightarrow> generated_vao env0 \<noteq> 0 \<longrightarrow>
      Init getRandom0 env0 g0 nC0 nL0 sc0 = Inr (sc1, cmds1, g1) \<longrightarrow>
      Init getRandom env g nC nL sc1 = Inr (sc1, [], g)) \<and>
   (sp_vao ssc0 = 0 \<longrightarrow> generated_vao env0 \<noteq> 0 \<longrightarrow>
      Init_spot getRandom0 env0 g0 nC0 nL0 ssc0 = Inr (ssc1, cmds1, g1) \<longrightarrow>
      Init_spot getRandom env g nC nL ssc1 = Inr (ssc1, [], g))"
proof -
  have a: "Init getRandom env g nC nL sc = Inr (sc, [], g)" if "vao sc \<noteq> 0" for sc
    using that by (simp add: Init_def)
  have b: "Init_spot getRandom env g nC nL ssc = Inr (ssc, [], g)" if "sp_vao ssc \<noteq> 0" for ssc
    using that by (simp add: Init_spot_def)
  have c: "vao sc1 = generated_vao env0"
    if "vao sc0 = 0" "Init getRandom0 env0 g0 nC0 nL0 sc0 = Inr (sc1, cmds1, g1)"
    using Init_Inr(3) [OF that(2,1)] .
  have d: "sp_vao ssc1 = generated_vao env0"
    if "sp_vao ssc0 = 0" "Init_spot getRandom0 env0 g0 nC0 nL0 ssc0 = Inr (ssc1, cmds1, g1)"
    using that by (auto simp: Init_spot_def split: if_splits prod.splits sum.splits)
  show ?thesis
    using a b c d by metis
qed

theorem Init_idempotent_witness:
  "Init getRandom_mid env1 0 7 3 scene1 = Inr (scene1, [], 0) \<and>
   Init_spot getRandom_mid env1 0 7 3 spot_scene1 = Inr (spot_scene1, [], 0) \<and>
   (\<exists>sc1 cmds1 g1. Init getRandom_mid env1 0 5 1 fresh_scene = Inr (sc1, cmds1, g1) \<and>
      Init getRandom_mid env1 0 7 3 sc1 = Inr (sc1, [], 0)) \<and>
   (\<exists>ssc1 cmds1 g1. Init_spot getRandom_mid env1 0 5 1 fresh_spot_scene = Inr (ssc1, cmds1, g1) \<and>
      Init_spot getRandom_mid env1 0 7 3 ssc1 = Inr (ssc1, [], 0))"
proof -
  have v: "vao scene1 \<noteq> 0" "sp_vao spot_scene1 \<noteq> 0" "vao fresh_scene = 0"
    "sp_vao fresh_spot_scene = 0" "generated_vao env1 \<noteq> 0"
    by (simp_all add: scene1_def spot_scene1_def fresh_scene_def fresh_spot_scene_def env1_def)
  from Init_fresh_completes obtain sc1 cmds1 g1 where
    i: "Init getRandom_mid env1 0 5 1 fresh_scene = Inr (sc1, cmds1, g1)"
    by blast
  from Init_spot_fresh_completes obtain ssc1 scmds1 sg1 where
    si: "Init_spot getRandom_mid env1 0 5 1 fresh_spot_scene = Inr (ssc1, scmds1, sg1)"
    by blast
  note a = Init_idempotent [of scene1 getRandom_mid env1 0 7 3 spot_scene1 fresh_scene env1
      getRandom_mid 0 5 1 sc1 cmds1 g1 fresh_spot_scene ssc1]
  note b = Init_idempotent [of scene1 getRandom_mid env1 0 7 3 spot_scene1 fresh_scene env1
      getRandom_mid 0 5 1 sc1 scmds1 sg1 fresh_spot_scene ssc1]
  from a v i have 1: "Init getRandom_mid env1 0 7 3 scene1 = Inr (scene1, [], 0)"
    and 2: "Init_spot getRandom_mid env1 0 7 3 spot_scene1 = Inr (spot_scene1, [], 0)"
    and 3: "Init getRandom_mid env1 0 7 3 sc1 = Inr (sc1, [], 0)"
    by blast+
  from b v si have 4: "Init_spot getRandom_mid env1 0 7 3 ssc1 = Inr (ssc1, [], 0)"
    by blast
  from 1 2 3 4 i si show ?thesis
    by blast
qed

end
